theory Spec2Isabelle
  imports Main "HOL-Library.Sublist" "HOL-Library.Multiset"
    "HOL-Library.Char_ord" "HOL-Library.List_Lexorder"
begin

section \<open>The scaffold command of terragrunt: cli/commands/scaffold/action.go\<close>

text \<open>
  The file embeds the functions of \<^verbatim>\<open>action.go\<close>: \<^verbatim>\<open>parseUrl\<close>,
  \<^verbatim>\<open>getLatestReleaseTag\<close>, \<^verbatim>\<open>readBlockAttribute\<close>, \<^verbatim>\<open>listTerraformFiles\<close>,
  \<^verbatim>\<open>listInputs\<close> and the three steps of \<^verbatim>\<open>Run\<close> that compute data themselves
  (version reference, partition of the inputs, rewrite of the source URL).
  Go strings are byte sequences, here \<^typ>\<open>string\<close>. A Go panic and a returned
  \<^verbatim>\<open>error\<close> are both values of the type \<open>failure\<close>; a function that can fail returns
  \<open>failure + 'a\<close>. Calls to the logger are left out: they change no value that the code
  reads again.
\<close>

subsection \<open>Failures\<close>

datatype panic =
    IndexOutOfRange
  | NotAString

datatype error =
    InvalidRepositoryURL
  | ReleaseLookupError string
  | SplitSourceUrlError string
  | WalkError string
  | EvaluationError string
  | SerializationError string

datatype failure = Panic panic | Error error

subsection \<open>Constants of the package\<close>

definition SourceUrlTypeHttps :: string where
  "SourceUrlTypeHttps = ''git-https''"

definition SourceUrlTypeGit :: string where
  "SourceUrlTypeGit = ''git-ssh''"

definition SourceGitSshUser :: string where
  "SourceGitSshUser = ''git''"

subsection \<open>parseUrl\<close>

text \<open>
  \<^verbatim>\<open>regexp.MustCompile(`git::([^:]+)://([^/]+)(/.*)`).FindStringSubmatch\<close>.
  \<open>match_here\<close> matches the pattern at the start of its argument. After \<^verbatim>\<open>git::\<close> the
  first group is the longest run of bytes other than a colon (a shorter one would be
  followed by a byte that is not a colon), and likewise the second group is the longest
  run of bytes other than a slash; the third group is the slash and what follows it up to
  the end of the line, since the dot matches no newline. The result holds the whole
  match and the three groups.
\<close>

definition match_here :: "string \<Rightarrow> string list option" where
  "match_here s =
     (if \<not> prefix ''git::'' s then None
      else
        let r = drop 5 s;
            scheme = takeWhile (\<lambda>c. c \<noteq> CHR '':'') r;
            r1 = dropWhile (\<lambda>c. c \<noteq> CHR '':'') r
        in if scheme = [] \<or> \<not> prefix ''://'' r1 then None
           else
             let r2 = drop 3 r1;
                 host = takeWhile (\<lambda>c. c \<noteq> CHR ''/'') r2;
                 r3 = dropWhile (\<lambda>c. c \<noteq> CHR ''/'') r2
             in if host = [] \<or> r3 = [] then None
                else
                  let path = takeWhile (\<lambda>c. c \<noteq> CHR 0x0A) r3
                  in Some [''git::'' @ scheme @ ''://'' @ host @ path, scheme, host, path])"

text \<open>The leftmost match: the pattern is tried at every position in turn. No match is
  Go's nil slice, the empty list.\<close>

fun FindStringSubmatch :: "string \<Rightarrow> string list" where
  "FindStringSubmatch [] = (case match_here [] of Some m \<Rightarrow> m | None \<Rightarrow> [])"
| "FindStringSubmatch (c # cs) =
     (case match_here (c # cs) of Some m \<Rightarrow> m | None \<Rightarrow> FindStringSubmatch cs)"

definition parseUrl :: "string \<Rightarrow> string \<times> string \<times> string" where
  "parseUrl moduleUrl =
     (let matches = FindStringSubmatch moduleUrl
      in if length matches \<noteq> 4 then ('''', '''', '''')
         else (matches ! 1, matches ! 2, matches ! 3))"

subsection \<open>Run: the source URL (lines 196 to 216)\<close>

text \<open>
  \<^verbatim>\<open>vars\<close> is a \<^verbatim>\<open>map[string]interface{}\<close>. The code reads a value only through
  \<^verbatim>\<open>fmt.Sprintf("%s", value)\<close>, which gives a string value back unchanged; a value of
  another dynamic type is kept as the text that the verb renders for it.
\<close>

datatype var_value = StringValue string | OtherValue string

fun Sprintf_s :: "var_value \<Rightarrow> string" where
  "Sprintf_s (StringValue s) = s"
| "Sprintf_s (OtherValue rendered) = rendered"

definition Run_sourceUrl :: "(string \<rightharpoonup> var_value) \<Rightarrow> string \<Rightarrow> string" where
  "Run_sourceUrl vars moduleUrl =
     (let sourceUrlType =
            (case vars ''SourceUrlType'' of
               Some v \<Rightarrow> Sprintf_s v
             | None \<Rightarrow> SourceUrlTypeHttps)
      in case parseUrl moduleUrl of
           (scheme, host, path) \<Rightarrow>
             if scheme \<noteq> '''' then
               if scheme = SourceUrlTypeHttps \<and> sourceUrlType = SourceUrlTypeGit then
                 let gitUser =
                       (case vars ''SourceGitSshUser'' of
                          Some v \<Rightarrow> Sprintf_s v
                        | None \<Rightarrow> SourceGitSshUser);
                     path1 = (if prefix ''/'' path then drop 1 path else path)
                 in gitUser @ ''@'' @ host @ '':'' @ path1
               else moduleUrl
             else moduleUrl)"

subsection \<open>ParsedInput and the partition of the inputs (Run, lines 180 to 189)\<close>

record ParsedInput =
  Name :: string
  Description :: string
  Type :: string
  DefaultValue :: string

text \<open>The loop appends each input to one of two slices, in the order of the inputs.\<close>

fun Run_partition_loop ::
  "ParsedInput list \<Rightarrow> ParsedInput list \<times> ParsedInput list \<Rightarrow> ParsedInput list \<times> ParsedInput list"
where
  "Run_partition_loop [] (parsedRequiredInputs, parsedOptionalInputs) =
     (parsedRequiredInputs, parsedOptionalInputs)"
| "Run_partition_loop (v # inputs) (parsedRequiredInputs, parsedOptionalInputs) =
     (if DefaultValue v = ''''
      then Run_partition_loop inputs (parsedRequiredInputs @ [v], parsedOptionalInputs)
      else Run_partition_loop inputs (parsedRequiredInputs, parsedOptionalInputs @ [v]))"

definition Run_partition :: "ParsedInput list \<Rightarrow> ParsedInput list \<times> ParsedInput list" where
  "Run_partition inputs = Run_partition_loop inputs ([], [])"

subsection \<open>Values of the configuration language (cty.Value)\<close>

text \<open>
  The values that an expression of a declaration file can have when it is evaluated with
  no variables and no functions: strings, numbers, booleans, null, tuples and objects,
  and the unknown value. Numbers are whole numbers here; fractions are outside the model.
\<close>

datatype cty_value =
    CtyString string
  | CtyNumber int
  | CtyBool bool
  | CtyNull
  | CtyUnknown
  | CtyTuple "cty_value list"
  | CtyObject "(string \<times> cty_value) list"

text \<open>\<^verbatim>\<open>(cty.Value).AsString\<close> panics on a value that is not a known, non-null string.\<close>

fun AsString :: "cty_value \<Rightarrow> failure + string" where
  "AsString (CtyString s) = Inr s"
| "AsString _ = Inl (Panic NotAString)"

subsection \<open>Blocks, attributes and expressions (hclsyntax)\<close>

text \<open>
  The code calls two methods of an expression: \<^verbatim>\<open>Variables()\<close>, the traversals the
  expression refers to, and \<^verbatim>\<open>Value(ctx)\<close> with the empty evaluation context, which gives
  a value or diagnostics. An expression is modelled by what the two calls return: the
  literal \<^verbatim>\<open>5\<close> refers to nothing and has the value 5, the reference \<^verbatim>\<open>string\<close> refers
  to the traversal with the single root step \<^verbatim>\<open>string\<close> and its evaluation gives
  diagnostics.
\<close>

datatype traverser =
    TraverseRoot string
  | TraverseAttr string
  | TraverseIndex cty_value
  | TraverseSplat

type_synonym traversal = "traverser list"

record expression =
  Variables :: "traversal list"
  Value :: "string + cty_value"

text \<open>Of a block the code reads \<^verbatim>\<open>Type\<close>, \<^verbatim>\<open>Labels\<close> and \<^verbatim>\<open>Body.Attributes\<close>, a Go map
  from names to attributes; of an attribute it reads the field \<^verbatim>\<open>Expr\<close>, which is
  \<open>None\<close> when it is nil.\<close>

record block =
  block_Type :: string
  Labels :: "string list"
  Attributes :: "string \<rightharpoonup> expression option"

subsection \<open>readBlockAttribute\<close>

definition readBlockAttribute :: "block \<Rightarrow> string \<Rightarrow> failure + cty_value option" where
  "readBlockAttribute blk name =
     (case Attributes blk name of
        None \<Rightarrow> Inr None
      | Some None \<Rightarrow> Inr None
      | Some (Some expr) \<Rightarrow>
          (let evaluated =
                 (case Value expr of
                    Inl diags \<Rightarrow> Inl (Error (EvaluationError diags))
                  | Inr v \<Rightarrow> Inr (Some v))
           in case Variables expr of
                [] \<Rightarrow> evaluated
              | v # _ \<Rightarrow>
                  (case v of
                     [] \<Rightarrow> Inl (Panic IndexOutOfRange)
                   | TraverseRoot rootName # _ \<Rightarrow> Inr (Some (CtyString rootName))
                   | _ # _ \<Rightarrow> evaluated)))"

subsection \<open>The text of a default value (listInputs, lines 364 to 381)\<close>

text \<open>
  Three library calls: \<^verbatim>\<open>ctyjson.Marshal(v, cty.DynamicPseudoType)\<close> writes the JSON
  object with the members \<^verbatim>\<open>value\<close> and \<^verbatim>\<open>type\<close>, \<^verbatim>\<open>json.Unmarshal\<close> reads it into a
  \<^verbatim>\<open>CtyJsonValue\<close>, and \<^verbatim>\<open>json.Marshal\<close> writes the field \<^verbatim>\<open>Value\<close>. A JSON text is
  kept as its tree until the last call, which produces the bytes.
\<close>

datatype json =
    JNull
  | JBool bool
  | JNumber int
  | JString string
  | JArray "json list"
  | JObject "(string \<times> json) list"

fun sequence :: "('e + 'a) list \<Rightarrow> 'e + 'a list" where
  "sequence [] = Inr []"
| "sequence (Inl e # _) = Inl e"
| "sequence (Inr x # rs) = (case sequence rs of Inl e \<Rightarrow> Inl e | Inr xs \<Rightarrow> Inr (x # xs))"

text \<open>The members of an object are written in the order of their names.\<close>

definition by_name :: "(string \<times> 'a) list \<Rightarrow> (string \<times> 'a) list" where
  "by_name kvs = map (\<lambda>k. (k, the (map_of kvs k))) (sort (remdups (map fst kvs)))"

fun cty_type_json :: "cty_value \<Rightarrow> json" where
  "cty_type_json (CtyString _) = JString ''string''"
| "cty_type_json (CtyNumber _) = JString ''number''"
| "cty_type_json (CtyBool _) = JString ''bool''"
| "cty_type_json CtyNull = JString ''dynamic''"
| "cty_type_json CtyUnknown = JString ''dynamic''"
| "cty_type_json (CtyTuple vs) = JArray [JString ''tuple'', JArray (map cty_type_json vs)]"
| "cty_type_json (CtyObject kvs) =
     JArray [JString ''object'', JObject (by_name (map (\<lambda>(k, v). (k, cty_type_json v)) kvs))]"

fun cty_value_json :: "cty_value \<Rightarrow> error + json" where
  "cty_value_json (CtyString s) = Inr (JString s)"
| "cty_value_json (CtyNumber n) = Inr (JNumber n)"
| "cty_value_json (CtyBool b) = Inr (JBool b)"
| "cty_value_json CtyNull = Inr JNull"
| "cty_value_json CtyUnknown = Inl (SerializationError ''value is not known'')"
| "cty_value_json (CtyTuple vs) =
     (case sequence (map cty_value_json vs) of
        Inl e \<Rightarrow> Inl e
      | Inr js \<Rightarrow> Inr (JArray js))"
| "cty_value_json (CtyObject kvs) =
     (case sequence (map (\<lambda>(k, v). case cty_value_json v of
                                        Inl e \<Rightarrow> Inl e
                                      | Inr j \<Rightarrow> Inr (k, j)) kvs) of
        Inl e \<Rightarrow> Inl e
      | Inr kjs \<Rightarrow> Inr (JObject (by_name kjs)))"

text \<open>A null of the dynamic type is written as \<^verbatim>\<open>null\<close>; every other value is wrapped
  with its type. A value that is unknown, or holds an unknown one, is not serializable.\<close>

definition ctyjson_Marshal :: "cty_value \<Rightarrow> error + json" where
  "ctyjson_Marshal v =
     (case v of
        CtyNull \<Rightarrow> Inr JNull
      | _ \<Rightarrow>
          (case cty_value_json v of
             Inl e \<Rightarrow> Inl e
           | Inr j \<Rightarrow> Inr (JObject [(''value'', j), (''type'', cty_type_json v)])))"

text \<open>
  What \<^verbatim>\<open>json.Unmarshal\<close> stores in a field of type \<^verbatim>\<open>interface{}\<close>: nil, a bool, a
  float64, a string, a slice or a map. A whole number of magnitude at most \<open>2 ^ 53\<close> is a
  float64 exactly; beyond that Go rounds, which is not modelled: the model reports such a
  number as a failure of this step.
\<close>

datatype go_value =
    GoNil
  | GoBool bool
  | GoFloat64 int
  | GoString string
  | GoSlice "go_value list"
  | GoMap "(string \<times> go_value) list"

fun decode :: "json \<Rightarrow> error + go_value" where
  "decode JNull = Inr GoNil"
| "decode (JBool b) = Inr (GoBool b)"
| "decode (JNumber n) =
     (if \<bar>n\<bar> \<le> 2 ^ 53 then Inr (GoFloat64 n)
      else Inl (SerializationError ''number beyond the exact range of float64''))"
| "decode (JString s) = Inr (GoString s)"
| "decode (JArray js) =
     (case sequence (map decode js) of Inl e \<Rightarrow> Inl e | Inr vs \<Rightarrow> Inr (GoSlice vs))"
| "decode (JObject kjs) =
     (case sequence (map (\<lambda>(k, j). case decode j of
                                        Inl e \<Rightarrow> Inl e
                                      | Inr v \<Rightarrow> Inr (k, v)) kjs) of
        Inl e \<Rightarrow> Inl e
      | Inr kvs \<Rightarrow> Inr (GoMap kvs))"

record CtyJsonValue =
  CtyJsonValue_Value :: go_value
  CtyJsonValue_Type :: go_value

definition object_member :: "string \<Rightarrow> (string \<times> json) list \<Rightarrow> error + go_value" where
  "object_member k kjs = (case map_of kjs k of None \<Rightarrow> Inr GoNil | Some j \<Rightarrow> decode j)"

fun json_Unmarshal :: "json \<Rightarrow> error + CtyJsonValue" where
  "json_Unmarshal JNull = Inr \<lparr>CtyJsonValue_Value = GoNil, CtyJsonValue_Type = GoNil\<rparr>"
| "json_Unmarshal (JObject kjs) =
     (case object_member ''value'' kjs of
        Inl e \<Rightarrow> Inl e
      | Inr v \<Rightarrow>
          (case object_member ''type'' kjs of
             Inl e \<Rightarrow> Inl e
           | Inr t \<Rightarrow> Inr \<lparr>CtyJsonValue_Value = v, CtyJsonValue_Type = t\<rparr>))"
| "json_Unmarshal _ =
     Inl (SerializationError ''cannot unmarshal into Go value of type CtyJsonValue'')"

text \<open>The bytes that \<^verbatim>\<open>json.Marshal\<close> writes.\<close>

fun decimal :: "nat \<Rightarrow> string" where
  "decimal n =
     (if n < 10 then [''0123456789'' ! n]
      else decimal (n div 10) @ [''0123456789'' ! (n mod 10)])"

declare decimal.simps [simp del]

definition float64_text :: "int \<Rightarrow> string" where
  "float64_text n = (if n < 0 then ''-'' @ decimal (nat (- n)) else decimal (nat n))"

definition hex_digit :: "nat \<Rightarrow> char" where
  "hex_digit n = ''0123456789abcdef'' ! n"

text \<open>A string is written between quotes; the quote and the backslash get a backslash,
  newline, carriage return and tab their short form, the other control characters and
  the characters \<^verbatim>\<open><\<close>, \<^verbatim>\<open>>\<close> and \<^verbatim>\<open>&\<close> the form \<^verbatim>\<open>\u00XX\<close>; every other byte is copied (the
  strings of a declaration file are valid UTF-8; the line and paragraph separators
  U+2028 and U+2029, which Go also escapes, are outside the model).\<close>

definition escape_byte :: "char \<Rightarrow> string" where
  "escape_byte c =
     (if c = CHR 0x22 \<or> c = CHR 0x5C then [CHR 0x5C, c]
      else if c = CHR 0x0A then [CHR 0x5C, CHR ''n'']
      else if c = CHR 0x0D then [CHR 0x5C, CHR ''r'']
      else if c = CHR 0x09 then [CHR 0x5C, CHR ''t'']
      else if (of_char c :: nat) < 32 \<or> c = CHR ''<'' \<or> c = CHR ''>'' \<or> c = CHR ''&''
        then [CHR 0x5C, CHR ''u'', CHR ''0'', CHR ''0'',
              hex_digit ((of_char c :: nat) div 16), hex_digit ((of_char c :: nat) mod 16)]
      else [c])"

definition json_string :: "string \<Rightarrow> string" where
  "json_string s = [CHR 0x22] @ concat (map escape_byte s) @ [CHR 0x22]"

fun join :: "string \<Rightarrow> string list \<Rightarrow> string" where
  "join sep [] = []"
| "join sep [x] = x"
| "join sep (x # y # ys) = x @ sep @ join sep (y # ys)"

fun json_Marshal :: "go_value \<Rightarrow> string" where
  "json_Marshal GoNil = ''null''"
| "json_Marshal (GoBool b) = (if b then ''true'' else ''false'')"
| "json_Marshal (GoFloat64 n) = float64_text n"
| "json_Marshal (GoString s) = json_string s"
| "json_Marshal (GoSlice vs) = ''['' @ join '','' (map json_Marshal vs) @ '']''"
| "json_Marshal (GoMap kvs) =
     ''{'' @ join '','' (map (\<lambda>(k, text). json_string k @ '':'' @ text)
                          (by_name (map (\<lambda>(k, v). (k, json_Marshal v)) kvs))) @ ''}''"

definition defaultValueText :: "cty_value \<Rightarrow> failure + string" where
  "defaultValueText defaultValue =
     (case ctyjson_Marshal defaultValue of
        Inl err \<Rightarrow> Inl (Error err)
      | Inr jsonBytes \<Rightarrow>
          (case json_Unmarshal jsonBytes of
             Inl err \<Rightarrow> Inl (Error err)
           | Inr ctyJsonOutput \<Rightarrow> Inr (json_Marshal (CtyJsonValue_Value ctyJsonOutput))))"

subsection \<open>listTerraformFiles\<close>

text \<open>
  The file system and the parser are outside the program. \<open>filepath_Walk\<close> gives, for a
  root, the calls that \<^verbatim>\<open>filepath.Walk\<close> makes to its function argument as long as that
  returns nil: each call has a path, whether the entry is a directory, and the error of
  reaching it (of the root, or of reading a directory), if any. \<open>os_ReadFile\<close> gives the
  content of a file or an error, and \<open>ParseHCL\<close> the body of a file, or \<open>ParseErrors\<close> when
  the diagnostics have errors. The parser keeps the files by name; the walk gives every
  path once.
\<close>

datatype walk_call = WalkCall string bool "string option"

datatype hcl_body = SyntaxBody "block list" | OtherBody

datatype parse_result = ParseErrors | Parsed hcl_body

record env =
  filepath_Walk :: "string \<Rightarrow> walk_call list"
  os_ReadFile :: "string \<Rightarrow> string + string"
  ParseHCL :: "string \<Rightarrow> string \<Rightarrow> parse_result"

text \<open>\<^verbatim>\<open>filepath.Ext\<close>: the suffix from the last dot of the last element of the path (the
  separator is the slash); \<open>Ext_scan\<close> reads the path from its end.\<close>

fun Ext_scan :: "string \<Rightarrow> string \<Rightarrow> string" where
  "Ext_scan [] ext = []"
| "Ext_scan (c # front) ext =
     (if c = CHR ''/'' then []
      else if c = CHR ''.'' then c # ext
      else Ext_scan front (c # ext))"

definition Ext :: "string \<Rightarrow> string" where
  "Ext path = Ext_scan (rev path) []"

text \<open>The function passed to the walk returns the error it is given, which ends the
  walk; otherwise it appends the path of a file with the extension \<^verbatim>\<open>.tf\<close>.\<close>

fun walk_loop :: "walk_call list \<Rightarrow> string list \<Rightarrow> string list \<times> error option" where
  "walk_loop [] tfFiles = (tfFiles, None)"
| "walk_loop (WalkCall path isDir (Some err) # calls) tfFiles = (tfFiles, Some (WalkError err))"
| "walk_loop (WalkCall path isDir None # calls) tfFiles =
     (if \<not> isDir \<and> Ext path = ''.tf''
      then walk_loop calls (tfFiles @ [path])
      else walk_loop calls tfFiles)"

definition listTerraformFiles :: "env \<Rightarrow> string \<Rightarrow> string list \<times> error option" where
  "listTerraformFiles e directoryPath = walk_loop (filepath_Walk e directoryPath) []"

subsection \<open>listInputs\<close>

text \<open>After a call of \<^verbatim>\<open>readBlockAttribute\<close> that returned an error the code logs it and
  goes on with nil; a panic is no return at all. (After the call for \<^verbatim>\<open>type\<close> the code
  sets \<^verbatim>\<open>descriptionAttr\<close> to nil, a variable it does not read again; \<^verbatim>\<open>typeAttr\<close> is nil
  already, since \<^verbatim>\<open>readBlockAttribute\<close> returns nil with every error.)\<close>

fun nil_on_error :: "failure + 'a option \<Rightarrow> failure + 'a option" where
  "nil_on_error (Inl (Error err)) = Inr None"
| "nil_on_error (Inl (Panic p)) = Inl (Panic p)"
| "nil_on_error (Inr x) = Inr x"

text \<open>The body of the loop over the blocks (lines 330 to 392): \<open>Inr None\<close> when the block
  adds no input, \<open>Inr (Some input)\<close> when it adds one, \<open>Inl\<close> when the function returns an
  error or panics.\<close>

definition listInputs_block :: "block \<Rightarrow> failure + ParsedInput option" where
  "listInputs_block blk =
     (if block_Type blk = ''variable'' then
        (case Labels blk of
           [] \<Rightarrow> Inl (Panic IndexOutOfRange)
         | name # _ \<Rightarrow>
             if length name > 0 then
               (case nil_on_error (readBlockAttribute blk ''description'') of
                  Inl f \<Rightarrow> Inl f
                | Inr descriptionAttr \<Rightarrow>
               (case (case descriptionAttr of
                        Some v \<Rightarrow> AsString v
                      | None \<Rightarrow> Inr (''No description for '' @ name)) of
                  Inl f \<Rightarrow> Inl f
                | Inr descriptionAttrText \<Rightarrow>
               (case nil_on_error (readBlockAttribute blk ''type'') of
                  Inl f \<Rightarrow> Inl f
                | Inr typeAttr \<Rightarrow>
               (case (case typeAttr of
                        Some v \<Rightarrow> AsString v
                      | None \<Rightarrow> Inr (''No type for '' @ name)) of
                  Inl f \<Rightarrow> Inl f
                | Inr typeAttrText \<Rightarrow>
               (case nil_on_error (readBlockAttribute blk ''default'') of
                  Inl f \<Rightarrow> Inl f
                | Inr defaultValue \<Rightarrow>
               (case (case defaultValue of
                        Some v \<Rightarrow> defaultValueText v
                      | None \<Rightarrow> Inr []) of
                  Inl f \<Rightarrow> Inl f
                | Inr defaultValueText1 \<Rightarrow>
                    Inr (Some \<lparr>Name = name, Description = descriptionAttrText,
                               Type = typeAttrText, DefaultValue = defaultValueText1\<rparr>)))))))
             else Inr None)
      else Inr None)"

fun blocks_loop :: "block list \<Rightarrow> ParsedInput list \<Rightarrow> failure + ParsedInput list" where
  "blocks_loop [] parsedInputs = Inr parsedInputs"
| "blocks_loop (blk # blocks) parsedInputs =
     (case listInputs_block blk of
        Inl f \<Rightarrow> Inl f
      | Inr None \<Rightarrow> blocks_loop blocks parsedInputs
      | Inr (Some input) \<Rightarrow> blocks_loop blocks (parsedInputs @ [input]))"

fun files_loop :: "env \<Rightarrow> string list \<Rightarrow> ParsedInput list \<Rightarrow> failure + ParsedInput list" where
  "files_loop e [] parsedInputs = Inr parsedInputs"
| "files_loop e (tfFile # tfFiles) parsedInputs =
     (case os_ReadFile e tfFile of
        Inl err \<Rightarrow> files_loop e tfFiles parsedInputs
      | Inr content \<Rightarrow>
          (case ParseHCL e content tfFile of
             ParseErrors \<Rightarrow> files_loop e tfFiles parsedInputs
           | Parsed OtherBody \<Rightarrow> files_loop e tfFiles parsedInputs
           | Parsed (SyntaxBody blocks) \<Rightarrow>
               (case blocks_loop blocks parsedInputs of
                  Inl f \<Rightarrow> Inl f
                | Inr parsedInputs1 \<Rightarrow> files_loop e tfFiles parsedInputs1)))"

definition listInputs :: "env \<Rightarrow> string \<Rightarrow> failure + ParsedInput list" where
  "listInputs e directoryPath =
     (case listTerraformFiles e directoryPath of
        (tfFiles, Some err) \<Rightarrow> Inl (Error err)
      | (tfFiles, None) \<Rightarrow> files_loop e tfFiles [])"

subsection \<open>URLs and their query parameters (net/url)\<close>

text \<open>
  Of a \<^verbatim>\<open>url.URL\<close> the code reads \<^verbatim>\<open>Path\<close> and the query, writes \<^verbatim>\<open>RawQuery\<close> and calls
  \<^verbatim>\<open>String()\<close>. That method writes the scheme, the user, the host and the path, then a
  question mark and \<^verbatim>\<open>RawQuery\<close> when \<^verbatim>\<open>ForceQuery\<close> is set or \<^verbatim>\<open>RawQuery\<close> is not empty,
  then the fragment. The texts on both sides of the query depend on fields that the code
  never writes; the record holds them as \<open>beforeQuery\<close> and \<open>afterQuery\<close>.
\<close>

record URL =
  beforeQuery :: string
  Path :: string
  ForceQuery :: bool
  RawQuery :: string
  afterQuery :: string

definition URL_String :: "URL \<Rightarrow> string" where
  "URL_String u =
     beforeQuery u
     @ (if ForceQuery u \<or> RawQuery u \<noteq> [] then ''?'' @ RawQuery u else [])
     @ afterQuery u"

text \<open>\<^verbatim>\<open>url.Values\<close> is a \<^verbatim>\<open>map[string][]string\<close>, here a list of keys with their values.\<close>

type_synonym Values = "(string \<times> string list) list"

definition Values_Get :: "Values \<Rightarrow> string \<Rightarrow> string" where
  "Values_Get v key =
     (case map_of v key of
        None \<Rightarrow> []
      | Some [] \<Rightarrow> []
      | Some (first # _) \<Rightarrow> first)"

fun Values_Add :: "Values \<Rightarrow> string \<Rightarrow> string \<Rightarrow> Values" where
  "Values_Add [] key val = [(key, [val])]"
| "Values_Add ((k, vs) # v) key val =
     (if k = key then (k, vs @ [val]) # v else (k, vs) # Values_Add v key val)"

definition ishex :: "char \<Rightarrow> bool" where
  "ishex c \<longleftrightarrow> c \<in> set ''0123456789abcdefABCDEF''"

definition unhex :: "char \<Rightarrow> nat" where
  "unhex c =
     (if c \<in> set ''0123456789'' then of_char c - 48
      else if c \<in> set ''abcdef'' then of_char c - 97 + 10
      else if c \<in> set ''ABCDEF'' then of_char c - 65 + 10
      else 0)"

text \<open>\<^verbatim>\<open>url.QueryUnescape\<close>: a percent sign needs two hexadecimal digits after it, a plus
  sign is a space; \<open>None\<close> is the escape error.\<close>

fun QueryUnescape :: "string \<Rightarrow> string option" where
  "QueryUnescape [] = Some []"
| "QueryUnescape (c # s) =
     (if c = CHR ''%'' then
        (case s of
           a # b # rest \<Rightarrow>
             if ishex a \<and> ishex b
             then map_option ((#) (char_of (unhex a * 16 + unhex b))) (QueryUnescape rest)
             else None
         | _ \<Rightarrow> None)
      else map_option ((#) (if c = CHR ''+'' then CHR '' '' else c)) (QueryUnescape s))"

text \<open>\<^verbatim>\<open>strings.Split\<close> with a separator of one byte: one part more than separators.\<close>

fun Split :: "string \<Rightarrow> char \<Rightarrow> string list" where
  "Split [] sep = [[]]"
| "Split (c # s) sep =
     (if c = sep then [] # Split s sep
      else (case Split s sep of
              [] \<Rightarrow> [[c]]
            | part # parts \<Rightarrow> (c # part) # parts))"

text \<open>\<^verbatim>\<open>url.ParseQuery\<close>, whose error \<^verbatim>\<open>(*URL).Query\<close> drops: the pairs are separated by
  ampersands; a pair with a semicolon, an empty pair and a pair with a bad escape are
  left out; a pair is cut at its first equals sign.\<close>

fun parseQuery :: "string list \<Rightarrow> Values \<Rightarrow> Values" where
  "parseQuery [] m = m"
| "parseQuery (pair # pairs) m =
     (if CHR '';'' \<in> set pair then parseQuery pairs m
      else if pair = [] then parseQuery pairs m
      else
        (case QueryUnescape (takeWhile (\<lambda>c. c \<noteq> CHR ''='') pair) of
           None \<Rightarrow> parseQuery pairs m
         | Some key \<Rightarrow>
             (case QueryUnescape (drop 1 (dropWhile (\<lambda>c. c \<noteq> CHR ''='') pair)) of
                None \<Rightarrow> parseQuery pairs m
              | Some val \<Rightarrow> parseQuery pairs (Values_Add m key val))))"

definition URL_Query :: "URL \<Rightarrow> Values" where
  "URL_Query u = parseQuery (Split (RawQuery u) (CHR ''&'')) []"

text \<open>\<^verbatim>\<open>url.QueryEscape\<close>: letters, digits and \<^verbatim>\<open>-_.~\<close> are kept, a space becomes a plus
  sign, every other byte a percent sign and two upper-case hexadecimal digits.\<close>

definition QueryEscape_byte :: "char \<Rightarrow> string" where
  "QueryEscape_byte c =
     (if c \<in> set ''abcdefghijklmnopqrstuvwxyzABCDEFGHIJKLMNOPQRSTUVWXYZ0123456789-_.~'' then [c]
      else if c = CHR '' '' then ''+''
      else [CHR ''%'', ''0123456789ABCDEF'' ! ((of_char c :: nat) div 16),
            ''0123456789ABCDEF'' ! ((of_char c :: nat) mod 16)])"

definition QueryEscape :: "string \<Rightarrow> string" where
  "QueryEscape s = concat (map QueryEscape_byte s)"

text \<open>\<^verbatim>\<open>(Values).Encode\<close>: the keys in sorted order, each value as \<^verbatim>\<open>key=value\<close>, with an
  ampersand before every pair but the first one written.\<close>

fun Encode_values :: "string \<Rightarrow> string list \<Rightarrow> string \<Rightarrow> string" where
  "Encode_values keyEscaped [] buf = buf"
| "Encode_values keyEscaped (v # vs) buf =
     Encode_values keyEscaped vs
       ((if buf \<noteq> [] then buf @ ''&'' else buf) @ keyEscaped @ ''='' @ QueryEscape v)"

fun Encode_keys :: "Values \<Rightarrow> string list \<Rightarrow> string \<Rightarrow> string" where
  "Encode_keys v [] buf = buf"
| "Encode_keys v (k # keys) buf =
     Encode_keys v keys
       (Encode_values (QueryEscape k) (case map_of v k of None \<Rightarrow> [] | Some vs \<Rightarrow> vs) buf)"

definition Values_Encode :: "Values \<Rightarrow> string" where
  "Values_Encode v = (if v = [] then [] else Encode_keys v (sort (remdups (map fst v))) [])"

subsection \<open>getLatestReleaseTag\<close>

text \<open>
  The environment of the process, the release service and the function
  \<^verbatim>\<open>terraform.SplitSourceUrl\<close> of another package are parameters. \<open>GetLatestRelease\<close> takes
  the token, the owner and the repository and gives an error or the tag name of the
  latest release. A function that can reach the service also returns the calls it made
  to it, owner and repository of each.
\<close>

record world =
  os_Getenv :: "string \<Rightarrow> string"
  GetLatestRelease :: "string \<Rightarrow> string \<Rightarrow> string \<Rightarrow> string + string"
  SplitSourceUrl :: "URL \<Rightarrow> string + URL"

type_synonym release_call = "string \<times> string"

text \<open>Reading a slice at an index panics when the index is not below the length.\<close>

definition index :: "'a list \<Rightarrow> nat \<Rightarrow> failure + 'a" where
  "index xs i = (if i < length xs then Inr (xs ! i) else Inl (Panic IndexOutOfRange))"

definition TrimSuffix :: "string \<Rightarrow> string \<Rightarrow> string" where
  "TrimSuffix s suf = (if suffix suf s then take (length s - length suf) s else s)"

definition getLatestReleaseTag :: "world \<Rightarrow> URL \<Rightarrow> (failure + string) \<times> release_call list" where
  "getLatestReleaseTag w parsedURL =
     (let pathParts = Split (Path parsedURL) (CHR ''/'')
      in if length pathParts < 2 then (Inl (Error InvalidRepositoryURL), [])
         else
           (case index pathParts 1 of
              Inl f \<Rightarrow> (Inl f, [])
            | Inr owner \<Rightarrow>
                (case index pathParts 2 of
                   Inl f \<Rightarrow> (Inl f, [])
                 | Inr repo0 \<Rightarrow>
                     (let repo = TrimSuffix repo0 ''.git'';
                          token = os_Getenv w ''GITHUB_OAUTH_TOKEN''
                      in case GetLatestRelease w token owner repo of
                           Inl err \<Rightarrow> (Inl (Error (ReleaseLookupError err)), [(owner, repo)])
                         | Inr tagName \<Rightarrow> (Inr tagName, [(owner, repo)])))))"

subsection \<open>Run: the version reference (lines 103 to 118)\<close>

text \<open>The step gives the new value of \<^verbatim>\<open>moduleUrl\<close>, or the failure with which \<^verbatim>\<open>Run\<close>
  ends, and the calls made to the release service. It is the only place of \<^verbatim>\<open>Run\<close>
  that calls \<^verbatim>\<open>getLatestReleaseTag\<close>.\<close>

definition Run_ref :: "world \<Rightarrow> URL \<Rightarrow> (failure + string) \<times> release_call list" where
  "Run_ref w parsedModuleUrl =
     (let params = URL_Query parsedModuleUrl;
          ref = Values_Get params ''ref''
      in if ref = [] then
           (case SplitSourceUrl w parsedModuleUrl of
              Inl err \<Rightarrow> (Inl (Error (SplitSourceUrlError err)), [])
            | Inr rootSourceUrl \<Rightarrow>
                (case getLatestReleaseTag w rootSourceUrl of
                   (Inr tag, calls) \<Rightarrow>
                     (Inr (URL_String
                             (parsedModuleUrl\<lparr>RawQuery :=
                                Values_Encode (Values_Add params ''ref'' tag)\<rparr>)), calls)
                 | (Inl (Error err), calls) \<Rightarrow> (Inr (URL_String parsedModuleUrl), calls)
                 | (Inl (Panic p), calls) \<Rightarrow> (Inl (Panic p), calls)))
         else (Inr (URL_String parsedModuleUrl), []))"

subsection \<open>Notions used to state the properties\<close>

text \<open>The blocks that the loop over the files reaches in a file: those of its body when
  the file is read and parsed, none otherwise.\<close>

definition file_blocks :: "env \<Rightarrow> string \<Rightarrow> block list" where
  "file_blocks e tfFile =
     (case os_ReadFile e tfFile of
        Inl err \<Rightarrow> []
      | Inr content \<Rightarrow>
          (case ParseHCL e content tfFile of
             Parsed (SyntaxBody blocks) \<Rightarrow> blocks
           | _ \<Rightarrow> []))"

text \<open>The attribute resolver as the specification words it: the name of the identifier
  when the expression refers to exactly one identifier that is a bare root, and the
  evaluation with the empty context otherwise.\<close>

definition readBlockAttribute_spec :: "block \<Rightarrow> string \<Rightarrow> failure + cty_value option" where
  "readBlockAttribute_spec blk name =
     (case Attributes blk name of
        None \<Rightarrow> Inr None
      | Some None \<Rightarrow> Inr None
      | Some (Some expr) \<Rightarrow>
          (case Variables expr of
             [[TraverseRoot rootName]] \<Rightarrow> Inr (Some (CtyString rootName))
           | _ \<Rightarrow>
               (case Value expr of
                  Inl diags \<Rightarrow> Inl (Error (EvaluationError diags))
                | Inr v \<Rightarrow> Inr (Some v))))"

subsection \<open>Examples\<close>

text \<open>The part of a path before its first double slash, as a root locator has it.\<close>

fun before_double_slash :: "string \<Rightarrow> string" where
  "before_double_slash [] = []"
| "before_double_slash (c # s) =
     (if c = CHR ''/'' \<and> prefix ''/'' s then [] else c # before_double_slash s)"

text \<open>A release service that knows one release; the root locator of a locator has the
  path up to the double slash and no query.\<close>

definition example_world :: world where
  "example_world =
     \<lparr>os_Getenv = (\<lambda>name. []),
      GetLatestRelease = (\<lambda>token owner repo.
         if owner = ''org'' \<and> repo = ''repo'' then Inr ''v1.2.3'' else Inl ''404 Not Found''),
      SplitSourceUrl = (\<lambda>u. Inr (u\<lparr>Path := before_double_slash (Path u), RawQuery := []\<rparr>))\<rparr>"

definition example_url :: "string \<Rightarrow> string \<Rightarrow> URL" where
  "example_url path query =
     \<lparr>beforeQuery = ''git::https://github.com'' @ path, Path = path, ForceQuery = False,
      RawQuery = query, afterQuery = []\<rparr>"

text \<open>A literal expression refers to nothing and has its value; a reference refers to
  its traversals and has no value in the empty context.\<close>

definition literal :: "cty_value \<Rightarrow> expression" where
  "literal v = \<lparr>Variables = [], Value = Inr v\<rparr>"

definition reference :: "traversal list \<Rightarrow> expression" where
  "reference ts = \<lparr>Variables = ts, Value = Inl ''Variables not allowed''\<rparr>"

definition variable_block :: "string list \<Rightarrow> (string \<rightharpoonup> expression option) \<Rightarrow> block" where
  "variable_block labels attrs =
     \<lparr>block_Type = ''variable'', Labels = labels, Attributes = attrs\<rparr>"

text \<open>A module directory with four files: \<^verbatim>\<open>README.md\<close>, \<^verbatim>\<open>broken.tf\<close>, which does not
  parse, \<^verbatim>\<open>main.tf\<close>, which holds the given blocks, and \<^verbatim>\<open>secret.tf\<close>, which cannot be
  read. Any other root cannot be listed.\<close>

definition example_env :: "block list \<Rightarrow> env" where
  "example_env blocks =
     \<lparr>filepath_Walk = (\<lambda>root.
        if root = ''/module'' then
          [WalkCall ''/module'' True None,
           WalkCall ''/module/README.md'' False None,
           WalkCall ''/module/broken.tf'' False None,
           WalkCall ''/module/main.tf'' False None,
           WalkCall ''/module/secret.tf'' False None]
        else [WalkCall root False (Some ''no such file or directory'')]),
      os_ReadFile = (\<lambda>name.
        if name = ''/module/secret.tf'' then Inl ''permission denied'' else Inr name),
      ParseHCL = (\<lambda>content name.
        if name = ''/module/broken.tf'' then ParseErrors
        else if name = ''/module/main.tf'' then Parsed (SyntaxBody blocks)
        else Parsed (SyntaxBody []))\<rparr>"

section \<open>Properties\<close>

subsection \<open>The partition of the inputs\<close>

lemma Run_partition_loop_filter:
  "Run_partition_loop xs (req, opt) =
     (req @ filter (\<lambda>d. DefaultValue d = []) xs, opt @ filter (\<lambda>d. DefaultValue d \<noteq> []) xs)"
  by (induction xs arbitrary: req opt) simp_all

lemma Run_partition_filter:
  "Run_partition xs =
     (filter (\<lambda>d. DefaultValue d = []) xs, filter (\<lambda>d. DefaultValue d \<noteq> []) xs)"
  by (simp add: Run_partition_def Run_partition_loop_filter)

text \<open>
  Claim C4. The loop of \<^verbatim>\<open>Run\<close> splits every sequence of inputs into the required ones
  (empty \<^verbatim>\<open>DefaultValue\<close>) and the optional ones (non-empty \<^verbatim>\<open>DefaultValue\<close>): the two
  results are the two filters of the input, so each keeps the order of discovery; their
  lengths add up to the length of the input; together they hold every input as often as
  the input does, and no input is in both; the empty input gives two empty sequences.
\<close>

theorem Run_partition_stable_partition:
  "fst (Run_partition inputs) = filter (\<lambda>d. DefaultValue d = []) inputs
   \<and> snd (Run_partition inputs) = filter (\<lambda>d. DefaultValue d \<noteq> []) inputs
   \<and> length (fst (Run_partition inputs)) + length (snd (Run_partition inputs)) = length inputs
   \<and> mset (fst (Run_partition inputs)) + mset (snd (Run_partition inputs)) = mset inputs
   \<and> set (fst (Run_partition inputs)) \<inter> set (snd (Run_partition inputs)) = {}
   \<and> subseq (fst (Run_partition inputs)) inputs
   \<and> subseq (snd (Run_partition inputs)) inputs
   \<and> Run_partition [] = ([], [])"
proof -
  have len: "length (filter (\<lambda>d. DefaultValue d = []) inputs)
      + length (filter (\<lambda>d. DefaultValue d \<noteq> []) inputs) = length inputs"
    by (rule sum_length_filter_compl)
  have ms: "mset (filter (\<lambda>d. DefaultValue d = []) inputs)
      + mset (filter (\<lambda>d. DefaultValue d \<noteq> []) inputs) = mset inputs"
    by (induction inputs) simp_all
  have disj: "set (filter (\<lambda>d. DefaultValue d = []) inputs)
      \<inter> set (filter (\<lambda>d. DefaultValue d \<noteq> []) inputs) = {}"
    by auto
  show ?thesis
    using len ms disj by (simp add: Run_partition_filter)
qed

subsection \<open>The rewrite of the source URL\<close>

text \<open>
  Claim C1. For the locator \<^verbatim>\<open>git::https://github.com/org/repo//modules/x\<close> and the
  variable \<^verbatim>\<open>SourceUrlType=git-ssh\<close> the rewrite should give
  \<^verbatim>\<open>git@github.com:org/repo//modules/x\<close>. The code does not: \<^verbatim>\<open>parseUrl\<close> finds the scheme
  \<^verbatim>\<open>https\<close>, and \<^verbatim>\<open>Run\<close> compares the scheme with the constant \<^verbatim>\<open>SourceUrlTypeHttps\<close>, which
  is \<^verbatim>\<open>git-https\<close>, so the locator stays as it is. The rewrite that the claim describes
  happens only for a locator whose scheme is written \<^verbatim>\<open>git-https\<close>.
\<close>

theorem Run_sourceUrl_https_unchanged:
  "parseUrl ''git::https://github.com/org/repo//modules/x''
     = (''https'', ''github.com'', ''/org/repo//modules/x'')
   \<and> Run_sourceUrl [''SourceUrlType'' \<mapsto> StringValue ''git-ssh'']
         ''git::https://github.com/org/repo//modules/x''
       = ''git::https://github.com/org/repo//modules/x''
   \<and> Run_sourceUrl [''SourceUrlType'' \<mapsto> StringValue ''git-ssh'']
         ''git::https://github.com/org/repo//modules/x''
       \<noteq> ''git@github.com:org/repo//modules/x''
   \<and> Run_sourceUrl [''SourceUrlType'' \<mapsto> StringValue ''git-ssh'']
         ''git::git-https://github.com/org/repo//modules/x''
       = ''git@github.com:org/repo//modules/x''"
  by code_simp

subsection \<open>The path of the root locator in getLatestReleaseTag\<close>

text \<open>
  Claim C9. \<^verbatim>\<open>getLatestReleaseTag\<close> splits the path of the root locator at the slashes.
  With fewer than two parts it returns the error \<^verbatim>\<open>invalid repository URL\<close>; with exactly
  two parts, as for the path \<^verbatim>\<open>/owner\<close>, the guard lets the path through and reading the
  part at index 2 panics, before any call to the release service; with three parts or
  more the function neither panics nor returns that error: it asks the service for the
  release of the owner and the repository and returns what the service answers.
\<close>

theorem getLatestReleaseTag_path_parts:
  "(length (Split (Path u) (CHR ''/'')) < 2 \<longrightarrow>
      getLatestReleaseTag w u = (Inl (Error InvalidRepositoryURL), []))
   \<and> (length (Split (Path u) (CHR ''/'')) = 2 \<longrightarrow>
      getLatestReleaseTag w u = (Inl (Panic IndexOutOfRange), []))
   \<and> (3 \<le> length (Split (Path u) (CHR ''/'')) \<longrightarrow>
      getLatestReleaseTag w u =
        (case GetLatestRelease w (os_Getenv w ''GITHUB_OAUTH_TOKEN'')
                (Split (Path u) (CHR ''/'') ! 1)
                (TrimSuffix (Split (Path u) (CHR ''/'') ! 2) ''.git'') of
           Inl err \<Rightarrow> Inl (Error (ReleaseLookupError err))
         | Inr tagName \<Rightarrow> Inr tagName,
         [(Split (Path u) (CHR ''/'') ! 1,
           TrimSuffix (Split (Path u) (CHR ''/'') ! 2) ''.git'')]))
   \<and> (Path u = ''/owner'' \<longrightarrow>
      getLatestReleaseTag w u = (Inl (Panic IndexOutOfRange), []))"
  by (auto simp: getLatestReleaseTag_def index_def Let_def split: sum.splits)

theorem getLatestReleaseTag_path_parts_witness:
  "length (Split (Path (example_url [] [])) (CHR ''/'')) < 2
   \<and> getLatestReleaseTag example_world (example_url [] [])
       = (Inl (Error InvalidRepositoryURL), [])
   \<and> length (Split (Path (example_url ''/owner'' [])) (CHR ''/'')) = 2
   \<and> Path (example_url ''/owner'' []) = ''/owner''
   \<and> getLatestReleaseTag example_world (example_url ''/owner'' [])
       = (Inl (Panic IndexOutOfRange), [])
   \<and> 3 \<le> length (Split (Path (example_url ''/org/repo.git'' [])) (CHR ''/''))
   \<and> getLatestReleaseTag example_world (example_url ''/org/repo.git'' [])
       = (Inr ''v1.2.3'', [(''org'', ''repo'')])"
proof -
  have one: "length (Split (Path (example_url [] [])) (CHR ''/'')) < 2"
    by (simp add: example_url_def)
  have two: "length (Split (Path (example_url ''/owner'' [])) (CHR ''/'')) = 2"
    by (simp add: example_url_def)
  have three: "3 \<le> length (Split (Path (example_url ''/org/repo.git'' [])) (CHR ''/''))"
    by (simp add: example_url_def)
  have parts: "Split (Path (example_url ''/org/repo.git'' [])) (CHR ''/'') = [[], ''org'', ''repo.git'']"
    by (simp add: example_url_def)
  have trim: "TrimSuffix ''repo.git'' ''.git'' = ''repo''"
    by (simp add: TrimSuffix_def suffix_def)
  show ?thesis
    using one two three
      getLatestReleaseTag_path_parts [of "example_url [] []" example_world]
      getLatestReleaseTag_path_parts [of "example_url ''/owner'' []" example_world]
      getLatestReleaseTag_path_parts [of "example_url ''/org/repo.git'' []" example_world]
    by (simp add: parts trim example_world_def) (simp add: example_url_def)
qed

subsection \<open>The loops of listInputs\<close>

lemma blocks_loop_append:
  "blocks_loop (xs @ ys) acc =
     (case blocks_loop xs acc of Inl f \<Rightarrow> Inl f | Inr acc1 \<Rightarrow> blocks_loop ys acc1)"
  by (induction xs arbitrary: acc) (simp_all split: sum.splits option.splits)

lemma files_loop_blocks:
  "files_loop e tfFiles acc = blocks_loop (concat (map (file_blocks e) tfFiles)) acc"
proof (induction tfFiles arbitrary: acc)
  case Nil
  show ?case by simp
next
  case (Cons f fs)
  show ?case
    by (simp add: Cons.IH file_blocks_def blocks_loop_append
        split: sum.splits parse_result.splits hcl_body.splits)
qed

lemma blocks_loop_keeps:
  "blocks_loop bs acc = Inr ds \<Longrightarrow> set acc \<subseteq> set ds"
proof (induction bs arbitrary: acc)
  case Nil
  then show ?case by simp
next
  case (Cons b bs)
  show ?case
  proof (cases "listInputs_block b")
    case (Inl f)
    with Cons.prems show ?thesis by simp
  next
    case (Inr r)
    show ?thesis
    proof (cases r)
      case None
      with Inr Cons.prems Cons.IH show ?thesis by simp
    next
      case (Some d)
      with Inr Cons.prems have "blocks_loop bs (acc @ [d]) = Inr ds" by simp
      from Cons.IH [OF this] show ?thesis by simp
    qed
  qed
qed

lemma blocks_loop_member:
  "blocks_loop bs acc = Inr ds \<Longrightarrow> b \<in> set bs \<Longrightarrow> listInputs_block b = Inr (Some d)
     \<Longrightarrow> d \<in> set ds"
proof (induction bs arbitrary: acc)
  case Nil
  then show ?case by simp
next
  case (Cons x xs)
  show ?case
  proof (cases "listInputs_block x")
    case (Inl f)
    with Cons.prems show ?thesis by simp
  next
    case (Inr r)
    show ?thesis
    proof (cases r)
      case None
      with Inr Cons.prems have run: "blocks_loop xs acc = Inr ds" and "b \<in> set xs"
        by auto
      then show ?thesis using Cons.IH Cons.prems(3) by blast
    next
      case (Some d')
      with Inr Cons.prems have run: "blocks_loop xs (acc @ [d']) = Inr ds" by simp
      show ?thesis
      proof (cases "b = x")
        case True
        with Inr Some Cons.prems(3) have "d' = d" by simp
        with blocks_loop_keeps [OF run] show ?thesis by auto
      next
        case False
        with Cons.prems(2) have "b \<in> set xs" by simp
        with Cons.IH run Cons.prems(3) show ?thesis by blast
      qed
    qed
  qed
qed

lemma blocks_loop_failing_block:
  "b \<in> set bs \<Longrightarrow> listInputs_block b = Inl f \<Longrightarrow> \<exists>f'. blocks_loop bs acc = Inl f'"
proof (induction bs arbitrary: acc)
  case Nil
  then show ?case by simp
next
  case (Cons x xs)
  show ?case
  proof (cases "listInputs_block x")
    case (Inl g)
    then show ?thesis by simp
  next
    case (Inr r)
    with Cons.prems have "b \<in> set xs" by auto
    with Cons.IH Cons.prems(2) Inr show ?thesis by (cases r) simp_all
  qed
qed

lemma blocks_loop_good_prefix:
  "\<forall>x \<in> set pre. \<exists>r. listInputs_block x = Inr r \<Longrightarrow>
     \<exists>acc1. blocks_loop pre acc = Inr acc1"
proof (induction pre arbitrary: acc)
  case Nil
  show ?case by simp
next
  case (Cons x xs)
  then obtain r where r: "listInputs_block x = Inr r" by auto
  from Cons have "\<And>a. \<exists>acc1. blocks_loop xs a = Inr acc1" by simp
  with r show ?case by (cases r) simp_all
qed

lemma blocks_loop_first_failure:
  assumes "\<forall>x \<in> set pre. \<exists>r. listInputs_block x = Inr r"
    and "listInputs_block b = Inl f"
  shows "blocks_loop (pre @ b # post) acc = Inl f"
proof -
  from blocks_loop_good_prefix [OF assms(1)] obtain acc1
    where "blocks_loop pre acc = Inr acc1" by blast
  with assms(2) show ?thesis by (simp add: blocks_loop_append)
qed

lemma blocks_loop_error_from_block:
  "blocks_loop bs acc = Inl f \<Longrightarrow> \<exists>b \<in> set bs. listInputs_block b = Inl f"
proof (induction bs arbitrary: acc)
  case Nil
  then show ?case by simp
next
  case (Cons x xs)
  show ?case
  proof (cases "listInputs_block x")
    case (Inl g)
    with Cons.prems show ?thesis by simp
  next
    case (Inr r)
    with Cons.prems Cons.IH show ?thesis by (cases r) auto
  qed
qed

lemma sequence_Inl: "sequence rs = Inl e \<Longrightarrow> Inl e \<in> set rs"
  by (induction rs rule: sequence.induct) (auto split: sum.splits)

lemma cty_value_json_error:
  "cty_value_json v = Inl e \<Longrightarrow> \<exists>m. e = SerializationError m"
proof (induction v arbitrary: e rule: cty_value_json.induct)
  case (6 vs)
  from "6.prems" have "sequence (map cty_value_json vs) = Inl e"
    by (simp split: sum.splits)
  then have "Inl e \<in> set (map cty_value_json vs)" by (rule sequence_Inl)
  then obtain x where "x \<in> set vs" "cty_value_json x = Inl e" by auto
  with "6.IH" show ?case by blast
next
  case (7 kvs)
  from "7.prems" have "sequence (map (\<lambda>(k, v). case cty_value_json v of
          Inl e \<Rightarrow> Inl e | Inr j \<Rightarrow> Inr (k, j)) kvs) = Inl e"
    by (simp split: sum.splits)
  then have "Inl e \<in> set (map (\<lambda>(k, v). case cty_value_json v of
          Inl e \<Rightarrow> Inl e | Inr j \<Rightarrow> Inr (k, j)) kvs)" by (rule sequence_Inl)
  then obtain k x where "(k, x) \<in> set kvs" "cty_value_json x = Inl e"
    by (auto split: sum.splits)
  with "7.IH" show ?case by blast
qed simp_all

lemma decode_error: "decode j = Inl e \<Longrightarrow> \<exists>m. e = SerializationError m"
proof (induction j arbitrary: e rule: decode.induct)
  case (5 js)
  from "5.prems" have "sequence (map decode js) = Inl e"
    by (simp split: sum.splits)
  then have "Inl e \<in> set (map decode js)" by (rule sequence_Inl)
  then obtain x where "x \<in> set js" "decode x = Inl e" by auto
  with "5.IH" show ?case by blast
next
  case (6 kjs)
  from "6.prems" have "sequence (map (\<lambda>(k, j). case decode j of
          Inl e \<Rightarrow> Inl e | Inr v \<Rightarrow> Inr (k, v)) kjs) = Inl e"
    by (simp split: sum.splits)
  then have "Inl e \<in> set (map (\<lambda>(k, j). case decode j of
          Inl e \<Rightarrow> Inl e | Inr v \<Rightarrow> Inr (k, v)) kjs)" by (rule sequence_Inl)
  then obtain k x where "(k, x) \<in> set kjs" "decode x = Inl e"
    by (auto split: sum.splits)
  with "6.IH" show ?case by blast
qed (auto split: if_splits)

lemma json_Unmarshal_error: "json_Unmarshal j = Inl e \<Longrightarrow> \<exists>m. e = SerializationError m"
  by (cases j) (auto simp: object_member_def split: sum.splits option.splits dest: decode_error)

lemma ctyjson_Marshal_error: "ctyjson_Marshal v = Inl e \<Longrightarrow> \<exists>m. e = SerializationError m"
proof -
  assume a: "ctyjson_Marshal v = Inl e"
  show ?thesis
  proof (cases "cty_value_json v")
    case (Inl e')
    with a have "e' = e" by (cases v) (simp_all add: ctyjson_Marshal_def)
    with Inl show ?thesis by (auto dest: cty_value_json_error)
  next
    case (Inr j)
    with a show ?thesis by (cases v) (simp_all add: ctyjson_Marshal_def)
  qed
qed

lemma defaultValueText_failure:
  "defaultValueText v = Inl f \<Longrightarrow> \<exists>m. f = Error (SerializationError m)"
  by (auto simp: defaultValueText_def split: sum.splits
      dest: ctyjson_Marshal_error json_Unmarshal_error)

lemma AsString_failure: "AsString v = Inl f \<Longrightarrow> f = Panic NotAString"
  by (cases v) simp_all

lemma nil_on_error_failure: "nil_on_error r = Inl f \<Longrightarrow> \<exists>p. f = Panic p"
  by (cases r rule: nil_on_error.cases) auto

lemma listInputs_block_error:
  "listInputs_block b = Inl (Error err) \<Longrightarrow> \<exists>m. err = SerializationError m"
  unfolding listInputs_block_def
  by (auto split: if_splits list.splits sum.splits option.splits
      dest!: nil_on_error_failure AsString_failure defaultValueText_failure)

subsection \<open>Blocks on which listInputs panics\<close>

lemma reached_block:
  "tfFile \<in> set tfFiles \<Longrightarrow> os_ReadFile e tfFile = Inr content \<Longrightarrow>
   ParseHCL e content tfFile = Parsed (SyntaxBody blocks) \<Longrightarrow> blk \<in> set blocks \<Longrightarrow>
   blk \<in> set (concat (map (file_blocks e) tfFiles))"
  by (auto simp: file_blocks_def intro!: bexI [of _ tfFile])

lemma listInputs_blocks:
  "listTerraformFiles e dir = (tfFiles, None) \<Longrightarrow>
   listInputs e dir = blocks_loop (concat (map (file_blocks e) tfFiles)) []"
  by (simp add: listInputs_def files_loop_blocks)

lemma example_files:
  "listTerraformFiles (example_env bs) ''/module''
     = ([''/module/broken.tf'', ''/module/main.tf'', ''/module/secret.tf''], None)"
  by (simp add: listTerraformFiles_def example_env_def Ext_def)

lemma example_blocks:
  "concat (map (file_blocks (example_env bs))
     [''/module/broken.tf'', ''/module/main.tf'', ''/module/secret.tf'']) = bs"
  by (simp add: file_blocks_def example_env_def)

text \<open>
  Claim C8. A block of type \<^verbatim>\<open>variable\<close> without labels makes the body of the loop
  panic with an index out of range: the code reads \<^verbatim>\<open>block.Labels[0]\<close> before any check
  of the length. When such a block is in a file that is read and parsed, \<^verbatim>\<open>listInputs\<close>
  returns no inputs; when every block reached before it is handled without failure, the
  run ends with exactly this panic. The block is neither skipped nor reported as an
  error.
\<close>

theorem listInputs_variable_without_label_panics:
  assumes "block_Type blk = ''variable''" and "Labels blk = []"
  shows "listInputs_block blk = Inl (Panic IndexOutOfRange)
    \<and> (listTerraformFiles e dir = (tfFiles, None) \<and> tfFile \<in> set tfFiles
        \<and> os_ReadFile e tfFile = Inr content
        \<and> ParseHCL e content tfFile = Parsed (SyntaxBody blocks) \<and> blk \<in> set blocks
        \<longrightarrow> (\<exists>f. listInputs e dir = Inl f))
    \<and> (listTerraformFiles e dir = (tfFiles, None)
        \<and> concat (map (file_blocks e) tfFiles) = pre @ blk # post
        \<and> (\<forall>x \<in> set pre. \<exists>r. listInputs_block x = Inr r)
        \<longrightarrow> listInputs e dir = Inl (Panic IndexOutOfRange))"
proof -
  have panic: "listInputs_block blk = Inl (Panic IndexOutOfRange)"
    using assms by (simp add: listInputs_block_def)
  have any: "\<exists>f. listInputs e dir = Inl f"
    if "listTerraformFiles e dir = (tfFiles, None)" "tfFile \<in> set tfFiles"
      "os_ReadFile e tfFile = Inr content"
      "ParseHCL e content tfFile = Parsed (SyntaxBody blocks)" "blk \<in> set blocks"
  proof -
    from that have "blk \<in> set (concat (map (file_blocks e) tfFiles))"
      by (intro reached_block)
    from blocks_loop_failing_block [OF this panic]
    show ?thesis by (simp add: listInputs_blocks [OF that(1)])
  qed
  have first: "listInputs e dir = Inl (Panic IndexOutOfRange)"
    if "listTerraformFiles e dir = (tfFiles, None)"
      "concat (map (file_blocks e) tfFiles) = pre @ blk # post"
      "\<forall>x \<in> set pre. \<exists>r. listInputs_block x = Inr r"
    using that blocks_loop_first_failure [OF that(3) panic]
    by (simp add: listInputs_blocks [OF that(1)])
  from panic any first show ?thesis by blast
qed

theorem listInputs_variable_without_label_panics_witness:
  "block_Type (variable_block [] Map.empty) = ''variable''
   \<and> Labels (variable_block [] Map.empty) = []
   \<and> listInputs_block (variable_block [] Map.empty) = Inl (Panic IndexOutOfRange)
   \<and> listInputs (example_env [variable_block [''region''] Map.empty, variable_block [] Map.empty])
        ''/module'' = Inl (Panic IndexOutOfRange)"
proof -
  let ?b = "variable_block [] Map.empty"
  let ?g = "variable_block [''region''] Map.empty"
  let ?e = "example_env [?g, ?b]"
  have t: "block_Type ?b = ''variable''" and l: "Labels ?b = []"
    by (simp_all add: variable_block_def)
  have files: "listTerraformFiles ?e ''/module''
     = ([''/module/broken.tf'', ''/module/main.tf'', ''/module/secret.tf''], None)"
    by (rule example_files)
  have "concat (map (file_blocks ?e)
     [''/module/broken.tf'', ''/module/main.tf'', ''/module/secret.tf'']) = [?g, ?b]"
    by (rule example_blocks)
  then have blocks: "concat (map (file_blocks ?e)
     [''/module/broken.tf'', ''/module/main.tf'', ''/module/secret.tf'']) = [?g] @ ?b # []"
    by (simp only: append.simps)
  have good: "\<forall>x \<in> set [?g]. \<exists>r. listInputs_block x = Inr r"
    by (simp add: listInputs_block_def variable_block_def readBlockAttribute_def)
  from listInputs_variable_without_label_panics [OF t l, of ?e "''/module''"
      "[''/module/broken.tf'', ''/module/main.tf'', ''/module/secret.tf'']" _ _ _ "[?g]" "[]"]
    files blocks good t l
  show ?thesis by blast
qed

text \<open>
  Claim C10. For a block of type \<^verbatim>\<open>variable\<close> with a non-empty first label, when the
  attribute \<^verbatim>\<open>description\<close> is resolved to a value that is not a string, as for
  \<^verbatim>\<open>description = 5\<close>, the call of \<^verbatim>\<open>AsString\<close> panics; the same holds for the attribute
  \<^verbatim>\<open>type\<close>, as for \<^verbatim>\<open>type = true\<close>, once the description has been handled. No placeholder
  is substituted, and when the blocks reached before are handled without failure
  \<^verbatim>\<open>listInputs\<close> as a whole ends with this panic.
\<close>

theorem listInputs_non_string_attribute_panics:
  assumes "block_Type blk = ''variable''" and "Labels blk = name # labels" and "name \<noteq> []"
    and "\<forall>s. v \<noteq> CtyString s"
  shows "(readBlockAttribute blk ''description'' = Inr (Some v)
          \<longrightarrow> listInputs_block blk = Inl (Panic NotAString))
    \<and> ((readBlockAttribute blk ''description'' = Inr None
         \<or> readBlockAttribute blk ''description'' = Inr (Some (CtyString s))
         \<or> readBlockAttribute blk ''description'' = Inl (Error err))
        \<and> readBlockAttribute blk ''type'' = Inr (Some v)
          \<longrightarrow> listInputs_block blk = Inl (Panic NotAString))
    \<and> (listInputs_block blk = Inl (Panic NotAString)
        \<and> listTerraformFiles e dir = (tfFiles, None)
        \<and> concat (map (file_blocks e) tfFiles) = pre @ blk # post
        \<and> (\<forall>x \<in> set pre. \<exists>r. listInputs_block x = Inr r)
          \<longrightarrow> listInputs e dir = Inl (Panic NotAString))"
proof -
  have v: "AsString v = Inl (Panic NotAString)"
    using assms(4) by (cases v) simp_all
  have d: "listInputs_block blk = Inl (Panic NotAString)"
    if "readBlockAttribute blk ''description'' = Inr (Some v)"
    using that assms(1-3) v by (simp add: listInputs_block_def)
  have t: "listInputs_block blk = Inl (Panic NotAString)"
    if "readBlockAttribute blk ''description'' = Inr None
        \<or> readBlockAttribute blk ''description'' = Inr (Some (CtyString s))
        \<or> readBlockAttribute blk ''description'' = Inl (Error err)"
      and "readBlockAttribute blk ''type'' = Inr (Some v)"
    using that assms(1-3) v by (auto simp: listInputs_block_def)
  have first: "listInputs e dir = Inl (Panic NotAString)"
    if "listInputs_block blk = Inl (Panic NotAString)"
      "listTerraformFiles e dir = (tfFiles, None)"
      "concat (map (file_blocks e) tfFiles) = pre @ blk # post"
      "\<forall>x \<in> set pre. \<exists>r. listInputs_block x = Inr r"
    using that blocks_loop_first_failure [OF that(4) that(1)]
    by (simp add: listInputs_blocks [OF that(2)])
  from d t first show ?thesis by blast
qed

theorem listInputs_non_string_attribute_panics_witness:
  "listInputs_block
     (variable_block [''x''] [''description'' \<mapsto> Some (literal (CtyNumber 5))])
     = Inl (Panic NotAString)
   \<and> listInputs_block
     (variable_block [''x''] [''type'' \<mapsto> Some (literal (CtyBool True))])
     = Inl (Panic NotAString)
   \<and> listInputs
     (example_env [variable_block [''x''] [''description'' \<mapsto> Some (literal (CtyNumber 5))]])
     ''/module'' = Inl (Panic NotAString)"
proof -
  let ?d = "variable_block [''x''] [''description'' \<mapsto> Some (literal (CtyNumber 5))]"
  let ?t = "variable_block [''x''] [''type'' \<mapsto> Some (literal (CtyBool True))]"
  let ?e = "example_env [?d]"
  let ?files = "[''/module/broken.tf'', ''/module/main.tf'', ''/module/secret.tf'']"
  have five: "\<forall>s. CtyNumber 5 \<noteq> CtyString s" and true: "\<forall>s. CtyBool True \<noteq> CtyString s"
    by simp_all
  have x: "''x'' \<noteq> []" by simp
  have d1: "block_Type ?d = ''variable''" and d2: "Labels ?d = ''x'' # []"
    and d3: "readBlockAttribute ?d ''description'' = Inr (Some (CtyNumber 5))"
    by (simp_all add: variable_block_def readBlockAttribute_def literal_def)
  have t1: "block_Type ?t = ''variable''" and t2: "Labels ?t = ''x'' # []"
    and t3: "readBlockAttribute ?t ''description'' = Inr None"
    and t4: "readBlockAttribute ?t ''type'' = Inr (Some (CtyBool True))"
    by (simp_all add: variable_block_def readBlockAttribute_def literal_def)
  have files: "listTerraformFiles ?e ''/module'' = (?files, None)"
    by (rule example_files)
  have "concat (map (file_blocks ?e) ?files) = [?d]"
    by (rule example_blocks)
  then have blocks: "concat (map (file_blocks ?e) ?files) = [] @ ?d # []"
    by (simp only: append.simps)
  have none: "\<forall>x \<in> set []. \<exists>r. listInputs_block x = Inr r" by simp
  from listInputs_non_string_attribute_panics [OF d1 d2 x five,
      where e = ?e and dir = "''/module''" and tfFiles = ?files and pre = "[]" and post = "[]"]
    d3 files blocks none
  have a: "listInputs_block ?d = Inl (Panic NotAString)"
    and c: "listInputs ?e ''/module'' = Inl (Panic NotAString)"
    by blast+
  from listInputs_non_string_attribute_panics [OF t1 t2 x true] t3 t4
  have b: "listInputs_block ?t = Inl (Panic NotAString)"
    by blast
  from a b c show ?thesis by blast
qed

subsection \<open>The input made from a block\<close>

text \<open>
  Claim C2. A block \<^verbatim>\<open>variable "X" {}\<close> with no attributes and a name \<^verbatim>\<open>X\<close> that is not
  empty gives the input with the name \<^verbatim>\<open>X\<close>, the description \<^verbatim>\<open>No description for X\<close>,
  the type \<^verbatim>\<open>No type for X\<close> and the empty default value. When the block is in a file
  that is read and parsed and \<^verbatim>\<open>listInputs\<close> returns inputs, this input is among them,
  and the partition of \<^verbatim>\<open>Run\<close> puts it with the required inputs and not with the optional
  ones.
\<close>

theorem listInputs_variable_without_attributes:
  assumes "block_Type blk = ''variable''" and "Labels blk = [X]" and "X \<noteq> []"
    and "Attributes blk = Map.empty"
  shows "listInputs_block blk =
           Inr (Some \<lparr>Name = X, Description = ''No description for '' @ X,
                      Type = ''No type for '' @ X, DefaultValue = []\<rparr>)
    \<and> (listTerraformFiles e dir = (tfFiles, None) \<and> tfFile \<in> set tfFiles
        \<and> os_ReadFile e tfFile = Inr content
        \<and> ParseHCL e content tfFile = Parsed (SyntaxBody blocks) \<and> blk \<in> set blocks
        \<and> listInputs e dir = Inr inputs
        \<longrightarrow> \<lparr>Name = X, Description = ''No description for '' @ X,
               Type = ''No type for '' @ X, DefaultValue = []\<rparr> \<in> set inputs
            \<and> \<lparr>Name = X, Description = ''No description for '' @ X,
               Type = ''No type for '' @ X, DefaultValue = []\<rparr>
                \<in> set (fst (Run_partition inputs))
            \<and> \<lparr>Name = X, Description = ''No description for '' @ X,
               Type = ''No type for '' @ X, DefaultValue = []\<rparr>
                \<notin> set (snd (Run_partition inputs)))"
proof -
  let ?d = "\<lparr>Name = X, Description = ''No description for '' @ X,
             Type = ''No type for '' @ X, DefaultValue = []\<rparr>"
  have blk: "listInputs_block blk = Inr (Some ?d)"
    using assms by (simp add: listInputs_block_def readBlockAttribute_def)
  have run: "?d \<in> set inputs \<and> ?d \<in> set (fst (Run_partition inputs))
      \<and> ?d \<notin> set (snd (Run_partition inputs))"
    if "listTerraformFiles e dir = (tfFiles, None)" "tfFile \<in> set tfFiles"
      "os_ReadFile e tfFile = Inr content"
      "ParseHCL e content tfFile = Parsed (SyntaxBody blocks)" "blk \<in> set blocks"
      "listInputs e dir = Inr inputs"
  proof -
    from that have "blk \<in> set (concat (map (file_blocks e) tfFiles))"
      by (intro reached_block)
    moreover from that(6) have "blocks_loop (concat (map (file_blocks e) tfFiles)) [] = Inr inputs"
      by (simp add: listInputs_blocks [OF that(1)])
    ultimately have "?d \<in> set inputs"
      using blk by (blast intro: blocks_loop_member)
    then show ?thesis by (simp add: Run_partition_filter)
  qed
  from blk run show ?thesis by blast
qed

theorem listInputs_variable_without_attributes_witness:
  "listInputs_block (variable_block [''X''] Map.empty) =
     Inr (Some \<lparr>Name = ''X'', Description = ''No description for X'',
                Type = ''No type for X'', DefaultValue = []\<rparr>)
   \<and> listInputs (example_env [variable_block [''X''] Map.empty]) ''/module'' =
       Inr [\<lparr>Name = ''X'', Description = ''No description for X'',
              Type = ''No type for X'', DefaultValue = []\<rparr>]
   \<and> \<lparr>Name = ''X'', Description = ''No description for X'',
        Type = ''No type for X'', DefaultValue = []\<rparr>
       \<in> set (fst (Run_partition
             [\<lparr>Name = ''X'', Description = ''No description for X'',
               Type = ''No type for X'', DefaultValue = []\<rparr>]))"
proof -
  let ?b = "variable_block [''X''] Map.empty"
  let ?e = "example_env [?b]"
  let ?files = "[''/module/broken.tf'', ''/module/main.tf'', ''/module/secret.tf'']"
  let ?d = "\<lparr>Name = ''X'', Description = ''No description for X'',
             Type = ''No type for X'', DefaultValue = []\<rparr>"
  have b1: "block_Type ?b = ''variable''" and b2: "Labels ?b = [''X'']"
    and b3: "''X'' \<noteq> []" and b4: "Attributes ?b = Map.empty"
    by (simp_all add: variable_block_def)
  have files: "listTerraformFiles ?e ''/module'' = (?files, None)"
    by (rule example_files)
  have main: "''/module/main.tf'' \<in> set ?files" by simp
  have rd: "os_ReadFile ?e ''/module/main.tf'' = Inr ''/module/main.tf''"
    by (simp add: example_env_def)
  have parse: "ParseHCL ?e ''/module/main.tf'' ''/module/main.tf'' = Parsed (SyntaxBody [?b])"
    by (simp add: example_env_def)
  have mem: "?b \<in> set [?b]" by simp
  have "listInputs ?e ''/module'' = blocks_loop (concat (map (file_blocks ?e) ?files)) []"
    by (rule listInputs_blocks [OF files])
  also have "\<dots> = blocks_loop [?b] []"
    by (simp only: example_blocks)
  also have "\<dots> = Inr [?d]"
    by (simp add: listInputs_block_def variable_block_def readBlockAttribute_def)
  finally have run: "listInputs ?e ''/module'' = Inr [?d]" .
  from listInputs_variable_without_attributes [OF b1 b2 b3 b4,
      where e = ?e and dir = "''/module''" and tfFiles = ?files
        and tfFile = "''/module/main.tf''" and content = "''/module/main.tf''"
        and blocks = "[?b]" and inputs = "[?d]"]
    files main rd parse mem run
  show ?thesis by simp
qed



subsection \<open>Failures of listInputs\<close>

lemma walk_loop_error:
  "walk_loop calls tfFiles = (found, Some err) \<Longrightarrow> \<exists>m. err = WalkError m"
  by (induction calls tfFiles rule: walk_loop.induct) (auto split: if_splits)

lemma files_loop_skip:
  assumes "os_ReadFile e tfFile = Inl rerr
    \<or> (os_ReadFile e tfFile = Inr content \<and> ParseHCL e content tfFile = ParseErrors)"
  shows "files_loop e (before @ tfFile # after) acc = files_loop e (before @ after) acc"
proof -
  from assms have "file_blocks e tfFile = []"
    by (auto simp: file_blocks_def)
  then show ?thesis by (simp add: files_loop_blocks)
qed

lemma blocks_loop_all_good:
  "\<forall>b \<in> set bs. \<exists>r. listInputs_block b = Inr r \<Longrightarrow>
   blocks_loop bs acc =
     Inr (acc @ concat (map (\<lambda>b. case listInputs_block b of
                                     Inr (Some input) \<Rightarrow> [input]
                                   | _ \<Rightarrow> []) bs))"
proof (induction bs arbitrary: acc)
  case Nil
  show ?case by simp
next
  case (Cons x xs)
  then obtain r where r: "listInputs_block x = Inr r" by auto
  from Cons have "\<forall>b \<in> set xs. \<exists>r. listInputs_block b = Inr r" by simp
  from Cons.IH [OF this] r show ?case by (cases r) simp_all
qed

text \<open>
  What the code does keep. When the directory cannot be listed, \<^verbatim>\<open>listInputs\<close> returns
  the error of the walk. When it can be listed, a file that cannot be read or does not
  parse is left out: the result is that of the loop over the other files, in their order.
  If no block that is reached fails, the call returns the inputs of all blocks of the
  files that are read and parsed, in the order of the files and of the blocks. An error
  that the call returns is the error of the walk or an error of the serialization of a
  default value.
\<close>

lemma listInputs_skips_unusable_files:
  "(listTerraformFiles e dir = (tfFiles, Some err)
      \<longrightarrow> listInputs e dir = Inl (Error err) \<and> (\<exists>m. err = WalkError m))
   \<and> (listTerraformFiles e dir = (tfFiles, None)
      \<longrightarrow> listInputs e dir = files_loop e tfFiles []
        \<and> (tfFiles = before @ tfFile # after
            \<and> (os_ReadFile e tfFile = Inl rerr
                \<or> (os_ReadFile e tfFile = Inr content
                    \<and> ParseHCL e content tfFile = ParseErrors))
            \<longrightarrow> listInputs e dir = files_loop e (before @ after) [])
        \<and> ((\<forall>b \<in> set (concat (map (file_blocks e) tfFiles)). \<exists>r. listInputs_block b = Inr r)
            \<longrightarrow> listInputs e dir =
                  Inr (concat (map (\<lambda>b. case listInputs_block b of
                                           Inr (Some input) \<Rightarrow> [input]
                                         | _ \<Rightarrow> [])
                                   (concat (map (file_blocks e) tfFiles)))))
        \<and> (listInputs e dir = Inl (Error err)
            \<longrightarrow> (\<exists>m. err = SerializationError m)
              \<and> (\<exists>b \<in> set (concat (map (file_blocks e) tfFiles)).
                    listInputs_block b = Inl (Error err))))
   \<and> (listInputs e dir = Inl (Error err)
      \<longrightarrow> (\<exists>m. err = WalkError m) \<or> (\<exists>m. err = SerializationError m))"
proof -
  have unlisted: "listInputs e dir = Inl (Error err) \<and> (\<exists>m. err = WalkError m)"
    if "listTerraformFiles e dir = (tfFiles, Some err)"
    using that walk_loop_error [of "filepath_Walk e dir" "[]" tfFiles err]
    by (simp add: listInputs_def listTerraformFiles_def)
  have listed: "listInputs e dir = files_loop e tfFiles []"
    if "listTerraformFiles e dir = (tfFiles, None)"
    using that by (simp add: listInputs_def)
  have skip: "listInputs e dir = files_loop e (before @ after) []"
    if "listTerraformFiles e dir = (tfFiles, None)" "tfFiles = before @ tfFile # after"
      "os_ReadFile e tfFile = Inl rerr
       \<or> (os_ReadFile e tfFile = Inr content \<and> ParseHCL e content tfFile = ParseErrors)"
    using listed [OF that(1)] that(2) files_loop_skip [OF that(3)] by simp
  have good: "listInputs e dir =
      Inr (concat (map (\<lambda>b. case listInputs_block b of
                               Inr (Some input) \<Rightarrow> [input]
                             | _ \<Rightarrow> [])
                       (concat (map (file_blocks e) tfFiles))))"
    if "listTerraformFiles e dir = (tfFiles, None)"
      "\<forall>b \<in> set (concat (map (file_blocks e) tfFiles)). \<exists>r. listInputs_block b = Inr r"
    using blocks_loop_all_good [OF that(2), of "[]"]
    by (simp add: listInputs_blocks [OF that(1)])
  have serial: "(\<exists>m. err = SerializationError m)
      \<and> (\<exists>b \<in> set (concat (map (file_blocks e) tfFiles)). listInputs_block b = Inl (Error err))"
    if "listTerraformFiles e dir = (tfFiles, None)" "listInputs e dir = Inl (Error err)"
  proof -
    from that have "blocks_loop (concat (map (file_blocks e) tfFiles)) [] = Inl (Error err)"
      by (simp add: listInputs_blocks)
    from blocks_loop_error_from_block [OF this]
    obtain b where b: "b \<in> set (concat (map (file_blocks e) tfFiles))"
      "listInputs_block b = Inl (Error err)" by blast
    from listInputs_block_error [OF b(2)] b show ?thesis by blast
  qed
  have either: "(\<exists>m. err = WalkError m) \<or> (\<exists>m. err = SerializationError m)"
    if run: "listInputs e dir = Inl (Error err)"
  proof (cases "listTerraformFiles e dir")
    case (Pair fs r)
    show ?thesis
    proof (cases r)
      case None
      with Pair run have "blocks_loop (concat (map (file_blocks e) fs)) [] = Inl (Error err)"
        by (simp add: listInputs_blocks)
      from blocks_loop_error_from_block [OF this] listInputs_block_error
      show ?thesis by blast
    next
      case (Some werr)
      with Pair run have "werr = err" by (simp add: listInputs_def)
      with Pair Some walk_loop_error [of "filepath_Walk e dir" "[]" fs err]
      show ?thesis by (simp add: listTerraformFiles_def)
    qed
  qed
  from unlisted listed skip good serial either show ?thesis by blast
qed
lemma listInputs_skips_unusable_files_example:
  "listInputs (example_env [variable_block [''region'']
                              [''default'' \<mapsto> Some (literal (CtyString ''us-east-1''))],
                            variable_block [''instance_count''] Map.empty]) ''/missing''
     = Inl (Error (WalkError ''no such file or directory''))
   \<and> listInputs (example_env [variable_block [''region'']
                              [''default'' \<mapsto> Some (literal (CtyString ''us-east-1''))],
                            variable_block [''instance_count''] Map.empty]) ''/module''
     = files_loop (example_env [variable_block [''region'']
                              [''default'' \<mapsto> Some (literal (CtyString ''us-east-1''))],
                            variable_block [''instance_count''] Map.empty])
         ([] @ [''/module/main.tf'', ''/module/secret.tf'']) []
   \<and> listInputs (example_env [variable_block [''region'']
                              [''default'' \<mapsto> Some (literal (CtyString ''us-east-1''))],
                            variable_block [''instance_count''] Map.empty]) ''/module''
     = files_loop (example_env [variable_block [''region'']
                              [''default'' \<mapsto> Some (literal (CtyString ''us-east-1''))],
                            variable_block [''instance_count''] Map.empty])
         ([''/module/broken.tf'', ''/module/main.tf''] @ []) []
   \<and> listInputs (example_env [variable_block [''region'']
                              [''default'' \<mapsto> Some (literal (CtyString ''us-east-1''))],
                            variable_block [''instance_count''] Map.empty]) ''/module''
     = Inr [\<lparr>Name = ''region'', Description = ''No description for region'',
             Type = ''No type for region'',
             DefaultValue = [CHR 0x22] @ ''us-east-1'' @ [CHR 0x22]\<rparr>,
            \<lparr>Name = ''instance_count'', Description = ''No description for instance_count'',
             Type = ''No type for instance_count'', DefaultValue = []\<rparr>]
   \<and> listInputs (example_env [variable_block [''u'']
                              [''default'' \<mapsto> Some (literal CtyUnknown)]]) ''/module''
     = Inl (Error (SerializationError ''value is not known''))
   \<and> (\<exists>m. SerializationError ''value is not known'' = SerializationError m)"
proof -
  let ?r = "variable_block [''region''] [''default'' \<mapsto> Some (literal (CtyString ''us-east-1''))]"
  let ?c = "variable_block [''instance_count''] Map.empty"
  let ?u = "variable_block [''u''] [''default'' \<mapsto> Some (literal CtyUnknown)]"
  let ?e = "example_env [?r, ?c]"
  let ?e2 = "example_env [?u]"
  let ?files = "[''/module/broken.tf'', ''/module/main.tf'', ''/module/secret.tf'']"
  let ?werr = "WalkError ''no such file or directory''"
  have missing: "listTerraformFiles ?e ''/missing'' = ([], Some ?werr)"
    by (simp add: listTerraformFiles_def example_env_def)
  have files: "listTerraformFiles ?e ''/module'' = (?files, None)"
    and files2: "listTerraformFiles ?e2 ''/module'' = (?files, None)"
    by (rule example_files)+
  have split1: "?files = [] @ ''/module/broken.tf'' # [''/module/main.tf'', ''/module/secret.tf'']"
    and split2: "?files = [''/module/broken.tf'', ''/module/main.tf''] @ ''/module/secret.tf'' # []"
    by simp_all
  have broken: "os_ReadFile ?e ''/module/broken.tf'' = Inr ''/module/broken.tf''
      \<and> ParseHCL ?e ''/module/broken.tf'' ''/module/broken.tf'' = ParseErrors"
    and secret: "os_ReadFile ?e ''/module/secret.tf'' = Inl ''permission denied''"
    by (simp_all add: example_env_def)
  have blocks: "concat (map (file_blocks ?e) ?files) = [?r, ?c]"
    and blocks2: "concat (map (file_blocks ?e2) ?files) = [?u]"
    by (rule example_blocks)+
  have r: "listInputs_block ?r
      = Inr (Some \<lparr>Name = ''region'', Description = ''No description for region'',
             Type = ''No type for region'',
             DefaultValue = [CHR 0x22] @ ''us-east-1'' @ [CHR 0x22]\<rparr>)"
    by (simp add: listInputs_block_def variable_block_def readBlockAttribute_def literal_def
        defaultValueText_def ctyjson_Marshal_def object_member_def json_string_def
        escape_byte_def)
  have c: "listInputs_block ?c
      = Inr (Some \<lparr>Name = ''instance_count'',
             Description = ''No description for instance_count'',
             Type = ''No type for instance_count'', DefaultValue = []\<rparr>)"
    by (simp add: listInputs_block_def variable_block_def readBlockAttribute_def)
  have u: "listInputs_block ?u = Inl (Error (SerializationError ''value is not known''))"
    by (simp add: listInputs_block_def variable_block_def readBlockAttribute_def literal_def
        defaultValueText_def ctyjson_Marshal_def)
  have good: "\<forall>b \<in> set (concat (map (file_blocks ?e) ?files)). \<exists>r. listInputs_block b = Inr r"
    unfolding blocks using r c by simp
  have run2: "listInputs ?e2 ''/module'' = Inl (Error (SerializationError ''value is not known''))"
    unfolding listInputs_blocks [OF files2] blocks2 using u by simp
  note w1 = listInputs_skips_unusable_files [where e = ?e and dir = "''/missing''"
      and tfFiles = "[]" and err = ?werr]
  note w2 = listInputs_skips_unusable_files [where e = ?e and dir = "''/module''"
      and tfFiles = ?files and before = "[]" and tfFile = "''/module/broken.tf''"
      and after = "[''/module/main.tf'', ''/module/secret.tf'']"
      and content = "''/module/broken.tf''"]
  note w3 = listInputs_skips_unusable_files [where e = ?e and dir = "''/module''"
      and tfFiles = ?files and before = "[''/module/broken.tf'', ''/module/main.tf'']"
      and tfFile = "''/module/secret.tf''" and after = "[]" and rerr = "''permission denied''"]
  note w4 = listInputs_skips_unusable_files [where e = ?e2 and dir = "''/module''"
      and tfFiles = ?files and err = "SerializationError ''value is not known''"]
  have a: "listInputs ?e ''/missing'' = Inl (Error ?werr)"
    using w1 missing by blast
  have b1: "listInputs ?e ''/module''
      = files_loop ?e ([] @ [''/module/main.tf'', ''/module/secret.tf'']) []"
    using w2 files split1 broken by blast
  have b2: "listInputs ?e ''/module''
      = files_loop ?e ([''/module/broken.tf'', ''/module/main.tf''] @ []) []"
    using w3 files split2 secret by blast
  have "listInputs ?e ''/module'' =
      Inr (concat (map (\<lambda>b. case listInputs_block b of
                               Inr (Some input) \<Rightarrow> [input]
                             | _ \<Rightarrow> [])
                       (concat (map (file_blocks ?e) ?files))))"
    using w2 files good by blast
  then have d: "listInputs ?e ''/module''
     = Inr [\<lparr>Name = ''region'', Description = ''No description for region'',
             Type = ''No type for region'',
             DefaultValue = [CHR 0x22] @ ''us-east-1'' @ [CHR 0x22]\<rparr>,
            \<lparr>Name = ''instance_count'', Description = ''No description for instance_count'',
             Type = ''No type for instance_count'', DefaultValue = []\<rparr>]"
    unfolding blocks using r c by simp
  have s: "\<exists>m. SerializationError ''value is not known'' = SerializationError m"
    using w4 files2 run2 by blast
  from a b1 b2 d run2 s show ?thesis by blast
qed

text \<open>
  Claim C7. The code does not keep it. In a root that is listed, with \<^verbatim>\<open>main.tf\<close> read
  and parsed, a block \<^verbatim>\<open>variable {}\<close> after a well-formed block, or a block with
  \<^verbatim>\<open>description = 5\<close>, makes \<^verbatim>\<open>listInputs\<close> panic: the call returns no inputs for the files
  that are read and parsed, although neither the listing nor the serialization of a
  default value has failed.
\<close>

theorem listInputs_panics_in_listed_root:
  "listTerraformFiles
      (example_env [variable_block [''region''] Map.empty, variable_block [] Map.empty])
      ''/module''
     = ([''/module/broken.tf'', ''/module/main.tf'', ''/module/secret.tf''], None)
   \<and> file_blocks
      (example_env [variable_block [''region''] Map.empty, variable_block [] Map.empty])
      ''/module/main.tf''
     = [variable_block [''region''] Map.empty, variable_block [] Map.empty]
   \<and> listInputs_block (variable_block [''region''] Map.empty)
     = Inr (Some \<lparr>Name = ''region'', Description = ''No description for region'',
                  Type = ''No type for region'', DefaultValue = []\<rparr>)
   \<and> listInputs
      (example_env [variable_block [''region''] Map.empty, variable_block [] Map.empty])
      ''/module''
     = Inl (Panic IndexOutOfRange)
   \<and> listInputs
      (example_env [variable_block [''x''] [''description'' \<mapsto> Some (literal (CtyNumber 5))]])
      ''/module''
     = Inl (Panic NotAString)"
proof -
  let ?g = "variable_block [''region''] Map.empty"
  let ?b = "variable_block [] Map.empty"
  let ?d = "variable_block [''x''] [''description'' \<mapsto> Some (literal (CtyNumber 5))]"
  let ?files = "[''/module/broken.tf'', ''/module/main.tf'', ''/module/secret.tf'']"
  have files: "\<And>bs. listTerraformFiles (example_env bs) ''/module'' = (?files, None)"
    by (rule example_files)
  have main: "file_blocks (example_env [?g, ?b]) ''/module/main.tf'' = [?g, ?b]"
    by (simp add: file_blocks_def example_env_def)
  have g: "listInputs_block ?g
      = Inr (Some \<lparr>Name = ''region'', Description = ''No description for region'',
                   Type = ''No type for region'', DefaultValue = []\<rparr>)"
    by (simp add: listInputs_block_def variable_block_def readBlockAttribute_def)
  have b: "listInputs_block ?b = Inl (Panic IndexOutOfRange)"
    by (simp add: listInputs_block_def variable_block_def)
  have d: "listInputs_block ?d = Inl (Panic NotAString)"
    by (simp add: listInputs_block_def variable_block_def readBlockAttribute_def literal_def)
  have "listInputs (example_env [?g, ?b]) ''/module''
      = blocks_loop (concat (map (file_blocks (example_env [?g, ?b])) ?files)) []"
    by (rule listInputs_blocks [OF files])
  also have "\<dots> = blocks_loop [?g, ?b] []"
    by (simp only: example_blocks)
  also have "\<dots> = Inl (Panic IndexOutOfRange)"
    using g b by simp
  finally have first: "listInputs (example_env [?g, ?b]) ''/module'' = Inl (Panic IndexOutOfRange)" .
  have "listInputs (example_env [?d]) ''/module''
      = blocks_loop (concat (map (file_blocks (example_env [?d])) ?files)) []"
    by (rule listInputs_blocks [OF files])
  also have "\<dots> = blocks_loop [?d] []"
    by (simp only: example_blocks)
  also have "\<dots> = Inl (Panic NotAString)"
    using d by simp
  finally have second: "listInputs (example_env [?d]) ''/module'' = Inl (Panic NotAString)" .
  from files [of "[?g, ?b]"] main g first second show ?thesis by blast
qed

subsection \<open>readBlockAttribute\<close>

text \<open>
  Claim C5, as the specification words it, fails: the code does not ask for exactly one
  identifier, nor for a bare one. For an expression that refers to \<^verbatim>\<open>a\<close> and to \<^verbatim>\<open>b\<close>, as
  \<^verbatim>\<open>[a, b]\<close> does, the specification evaluates, which gives an error, and the code
  returns the string \<^verbatim>\<open>a\<close>; for the reference \<^verbatim>\<open>var.x\<close>, which is not bare, the code
  returns the string \<^verbatim>\<open>var\<close>.
\<close>

theorem readBlockAttribute_spec_counterexample:
  "readBlockAttribute
     (variable_block [''x'']
        [''default'' \<mapsto> Some (reference [[TraverseRoot ''a''], [TraverseRoot ''b'']])])
     ''default'' = Inr (Some (CtyString ''a''))
   \<and> readBlockAttribute_spec
     (variable_block [''x'']
        [''default'' \<mapsto> Some (reference [[TraverseRoot ''a''], [TraverseRoot ''b'']])])
     ''default'' = Inl (Error (EvaluationError ''Variables not allowed''))
   \<and> readBlockAttribute
     (variable_block [''x'']
        [''default'' \<mapsto> Some (reference [[TraverseRoot ''var'', TraverseAttr ''x'']])])
     ''default'' = Inr (Some (CtyString ''var''))
   \<and> readBlockAttribute_spec
     (variable_block [''x'']
        [''default'' \<mapsto> Some (reference [[TraverseRoot ''var'', TraverseAttr ''x'']])])
     ''default'' = Inl (Error (EvaluationError ''Variables not allowed''))
   \<and> readBlockAttribute
     (variable_block [''x'']
        [''default'' \<mapsto> Some (reference [[TraverseRoot ''a''], [TraverseRoot ''b'']])])
     ''default''
     \<noteq> readBlockAttribute_spec
     (variable_block [''x'']
        [''default'' \<mapsto> Some (reference [[TraverseRoot ''a''], [TraverseRoot ''b'']])])
     ''default''"
  by (simp add: readBlockAttribute_def readBlockAttribute_spec_def variable_block_def
      reference_def)

text \<open>
  Claim C5, amended. A block without the attribute, or with an attribute without
  expression, gives no value and no error. When the expression of the attribute refers
  to at least one identifier and the first traversal starts with a root step, the
  resolver returns the name of that root as a string, whatever the evaluation of the
  expression would give, whatever else the expression refers to and whatever steps
  follow the root. An expression that refers to nothing is evaluated with the empty
  context: a value is returned as it is, diagnostics are returned as an evaluation
  error. On the expressions that the specification's wording covers in the same way (no
  reference, or one bare root) the code and that wording agree.
\<close>

theorem readBlockAttribute_first_reference:
  "(Attributes blk name = None \<or> Attributes blk name = Some None
      \<longrightarrow> readBlockAttribute blk name = Inr None)
   \<and> (Attributes blk name = Some (Some expr)
       \<and> Variables expr = (TraverseRoot rootName # steps) # others
      \<longrightarrow> readBlockAttribute blk name = Inr (Some (CtyString rootName)))
   \<and> (Attributes blk name = Some (Some expr) \<and> Variables expr = [] \<and> Value expr = Inr v
      \<longrightarrow> readBlockAttribute blk name = Inr (Some v))
   \<and> (Attributes blk name = Some (Some expr) \<and> Variables expr = [] \<and> Value expr = Inl diags
      \<longrightarrow> readBlockAttribute blk name = Inl (Error (EvaluationError diags)))
   \<and> (Attributes blk name = Some (Some expr)
       \<and> (Variables expr = [] \<or> Variables expr = [[TraverseRoot rootName]])
      \<longrightarrow> readBlockAttribute blk name = readBlockAttribute_spec blk name)"
  by (auto simp: readBlockAttribute_def readBlockAttribute_spec_def split: sum.splits)

theorem readBlockAttribute_first_reference_witness:
  "readBlockAttribute (variable_block [''x''] Map.empty) ''type'' = Inr None
   \<and> readBlockAttribute
        (variable_block [''x''] [''type'' \<mapsto> Some (reference [[TraverseRoot ''string'']])])
        ''type'' = Inr (Some (CtyString ''string''))
   \<and> readBlockAttribute
        (variable_block [''x'']
           [''default'' \<mapsto> Some (reference [[TraverseRoot ''a''], [TraverseRoot ''b'']])])
        ''default'' = Inr (Some (CtyString ''a''))
   \<and> readBlockAttribute
        (variable_block [''x''] [''default'' \<mapsto> Some (literal (CtyNumber 5))])
        ''default'' = Inr (Some (CtyNumber 5))
   \<and> readBlockAttribute
        (variable_block [''x'']
           [''default'' \<mapsto> Some \<lparr>Variables = [], Value = Inl ''Function calls not allowed''\<rparr>])
        ''default'' = Inl (Error (EvaluationError ''Function calls not allowed''))
   \<and> readBlockAttribute
        (variable_block [''x''] [''type'' \<mapsto> Some (reference [[TraverseRoot ''string'']])])
        ''type''
      = readBlockAttribute_spec
        (variable_block [''x''] [''type'' \<mapsto> Some (reference [[TraverseRoot ''string'']])])
        ''type''"
proof -
  let ?none = "variable_block [''x''] Map.empty"
  let ?one = "variable_block [''x''] [''type'' \<mapsto> Some (reference [[TraverseRoot ''string'']])]"
  let ?two = "variable_block [''x'']
           [''default'' \<mapsto> Some (reference [[TraverseRoot ''a''], [TraverseRoot ''b'']])]"
  let ?lit = "variable_block [''x''] [''default'' \<mapsto> Some (literal (CtyNumber 5))]"
  let ?call = "variable_block [''x'']
           [''default'' \<mapsto> Some \<lparr>Variables = [], Value = Inl ''Function calls not allowed''\<rparr>]"
  have h1: "Attributes ?none ''type'' = None \<or> Attributes ?none ''type'' = Some None"
    by (simp add: variable_block_def)
  have h2: "Attributes ?one ''type'' = Some (Some (reference [[TraverseRoot ''string'']]))
      \<and> Variables (reference [[TraverseRoot ''string'']]) = (TraverseRoot ''string'' # []) # []"
    by (simp add: variable_block_def reference_def)
  have h3: "Attributes ?two ''default''
        = Some (Some (reference [[TraverseRoot ''a''], [TraverseRoot ''b'']]))
      \<and> Variables (reference [[TraverseRoot ''a''], [TraverseRoot ''b'']])
        = (TraverseRoot ''a'' # []) # [[TraverseRoot ''b'']]"
    by (simp add: variable_block_def reference_def)
  have h4: "Attributes ?lit ''default'' = Some (Some (literal (CtyNumber 5)))
      \<and> Variables (literal (CtyNumber 5)) = [] \<and> Value (literal (CtyNumber 5)) = Inr (CtyNumber 5)"
    by (simp add: variable_block_def literal_def)
  have h5: "Attributes ?call ''default''
        = Some (Some \<lparr>Variables = [], Value = Inl ''Function calls not allowed''\<rparr>)
      \<and> Variables \<lparr>Variables = [], Value = Inl ''Function calls not allowed''\<rparr> = []
      \<and> Value \<lparr>Variables = [], Value = Inl ''Function calls not allowed''\<rparr>
        = Inl ''Function calls not allowed''"
    by (simp add: variable_block_def)
  have h6: "Attributes ?one ''type'' = Some (Some (reference [[TraverseRoot ''string'']]))
      \<and> (Variables (reference [[TraverseRoot ''string'']]) = []
         \<or> Variables (reference [[TraverseRoot ''string'']]) = [[TraverseRoot ''string'']])"
    by (simp add: variable_block_def reference_def)
  from readBlockAttribute_first_reference [where blk = ?none and name = "''type''"] h1
  have a: "readBlockAttribute ?none ''type'' = Inr None" by blast
  from readBlockAttribute_first_reference [where blk = ?one and name = "''type''"
      and expr = "reference [[TraverseRoot ''string'']]" and rootName = "''string''"
      and steps = "[]" and others = "[]"] h2 h6
  have b: "readBlockAttribute ?one ''type'' = Inr (Some (CtyString ''string''))"
    and f: "readBlockAttribute ?one ''type'' = readBlockAttribute_spec ?one ''type''"
    by blast+
  from readBlockAttribute_first_reference [where blk = ?two and name = "''default''"
      and expr = "reference [[TraverseRoot ''a''], [TraverseRoot ''b'']]" and rootName = "''a''"
      and steps = "[]" and others = "[[TraverseRoot ''b'']]"] h3
  have c: "readBlockAttribute ?two ''default'' = Inr (Some (CtyString ''a''))" by blast
  from readBlockAttribute_first_reference [where blk = ?lit and name = "''default''"
      and expr = "literal (CtyNumber 5)" and v = "CtyNumber 5"] h4
  have d: "readBlockAttribute ?lit ''default'' = Inr (Some (CtyNumber 5))" by blast
  from readBlockAttribute_first_reference [where blk = ?call and name = "''default''"
      and expr = "\<lparr>Variables = [], Value = Inl ''Function calls not allowed''\<rparr>"
      and diags = "''Function calls not allowed''"] h5
  have e: "readBlockAttribute ?call ''default''
      = Inl (Error (EvaluationError ''Function calls not allowed''))" by blast
  from a b c d e f show ?thesis by blast
qed

subsection \<open>The version reference\<close>

text \<open>
  Claim C6, as it is worded, fails for a locator whose first value of \<^verbatim>\<open>ref\<close> is empty:
  \<^verbatim>\<open>params.Get("ref")\<close> gives the first value, so for the query \<^verbatim>\<open>ref=&ref=v0.9\<close> the code
  makes the lookup although the locator has the parameter, and appends the tag to a
  locator that already has \<^verbatim>\<open>ref=v0.9\<close>; for the query \<^verbatim>\<open>ref=\<close> it makes the lookup too.
\<close>

theorem Run_ref_empty_first_ref_counterexample:
  "map_of (URL_Query (example_url ''/org/repo//modules/x'' ''ref=&ref=v0.9'')) ''ref''
     = Some ['''', ''v0.9'']
   \<and> URL_String (example_url ''/org/repo//modules/x'' ''ref=&ref=v0.9'')
     = ''git::https://github.com/org/repo//modules/x?ref=&ref=v0.9''
   \<and> Run_ref example_world (example_url ''/org/repo//modules/x'' ''ref=&ref=v0.9'')
     = (Inr ''git::https://github.com/org/repo//modules/x?ref=&ref=v0.9&ref=v1.2.3'',
        [(''org'', ''repo'')])
   \<and> map_of (URL_Query (example_url ''/org/repo//modules/x'' ''ref='')) ''ref'' = Some ['''']
   \<and> Run_ref example_world (example_url ''/org/repo//modules/x'' ''ref='')
     = (Inr ''git::https://github.com/org/repo//modules/x?ref=&ref=v1.2.3'',
        [(''org'', ''repo'')])"
  by code_simp

lemma sublist_Encode_values:
  "sublist x buf \<Longrightarrow> sublist x (Encode_values keyEscaped vs buf)"
proof (induction vs arbitrary: buf)
  case Nil
  then show ?case by simp
next
  case (Cons v vs)
  from Cons.prems obtain ps ss where "buf = ps @ x @ ss"
    by (auto simp: sublist_def)
  then have "sublist x ((if buf \<noteq> [] then buf @ ''&'' else buf)
      @ keyEscaped @ ''='' @ QueryEscape v)"
    by (auto simp: sublist_def)
  from Cons.IH [OF this] show ?case by simp
qed

lemma Encode_values_contains:
  "v \<in> set vs \<Longrightarrow>
   sublist (keyEscaped @ ''='' @ QueryEscape v) (Encode_values keyEscaped vs buf)"
proof (induction vs arbitrary: buf)
  case Nil
  then show ?case by simp
next
  case (Cons x xs)
  show ?case
  proof (cases "v = x")
    case True
    have "sublist (keyEscaped @ ''='' @ QueryEscape v)
        ((if buf \<noteq> [] then buf @ ''&'' else buf) @ keyEscaped @ ''='' @ QueryEscape v)"
      by (rule sublist_append_leftI)
    with True show ?thesis by (simp add: sublist_Encode_values)
  next
    case False
    with Cons.prems have "v \<in> set xs" by simp
    from Cons.IH [OF this] show ?thesis by simp
  qed
qed

lemma sublist_Encode_keys:
  "sublist x buf \<Longrightarrow> sublist x (Encode_keys m keys buf)"
  by (induction keys arbitrary: buf) (simp_all add: sublist_Encode_values)

lemma Encode_keys_contains:
  "k \<in> set keys \<Longrightarrow> map_of m k = Some vs \<Longrightarrow> v \<in> set vs \<Longrightarrow>
   sublist (QueryEscape k @ ''='' @ QueryEscape v) (Encode_keys m keys buf)"
proof (induction keys arbitrary: buf)
  case Nil
  then show ?case by simp
next
  case (Cons x xs)
  show ?case
  proof (cases "k = x")
    case True
    from Encode_values_contains [OF Cons.prems(3), of "QueryEscape x" buf] True Cons.prems(2)
    have "sublist (QueryEscape k @ ''='' @ QueryEscape v)
        (Encode_values (QueryEscape x) (case map_of m x of None \<Rightarrow> [] | Some vs \<Rightarrow> vs) buf)"
      by simp
    then show ?thesis by (simp add: sublist_Encode_keys)
  next
    case False
    with Cons.prems have "k \<in> set xs" by simp
    from Cons.IH [OF this Cons.prems(2,3)] show ?thesis by simp
  qed
qed

lemma map_of_Values_Add:
  "map_of (Values_Add m key val) key
     = Some ((case map_of m key of None \<Rightarrow> [] | Some vs \<Rightarrow> vs) @ [val])"
  by (induction m key val rule: Values_Add.induct) simp_all

lemma Values_Add_not_empty: "Values_Add m key val \<noteq> []"
  by (cases m) (auto split: if_splits)

lemma Values_Encode_Add_contains:
  "sublist (QueryEscape key @ ''='' @ QueryEscape val) (Values_Encode (Values_Add m key val))"
proof -
  let ?m = "Values_Add m key val"
  have look: "map_of ?m key = Some ((case map_of m key of None \<Rightarrow> [] | Some vs \<Rightarrow> vs) @ [val])"
    by (rule map_of_Values_Add)
  then have "key \<in> fst ` set ?m"
    by (metis map_of_eq_None_iff option.distinct(1))
  then have key: "key \<in> set (sort (remdups (map fst ?m)))" by simp
  have "val \<in> set ((case map_of m key of None \<Rightarrow> [] | Some vs \<Rightarrow> vs) @ [val])" by simp
  from Encode_keys_contains [OF key look this]
  show ?thesis by (simp add: Values_Encode_def Values_Add_not_empty)
qed

lemma getLatestReleaseTag_calls: "length (snd (getLatestReleaseTag w u)) \<le> 1"
  by (simp add: getLatestReleaseTag_def Let_def split: sum.splits)

text \<open>
  Claim C6, amended. \<^verbatim>\<open>Run\<close> asks for the latest release in one place only, at most
  once: the calls to the release service are at most one. When \<^verbatim>\<open>params.Get("ref")\<close> is
  not empty, as for the query \<^verbatim>\<open>ref=v0.9\<close>, no call is made and the locator is the
  text of the parsed URL, unchanged. A call is made only when \<^verbatim>\<open>params.Get("ref")\<close> is
  empty, which is how the code finds that the locator has no version reference: the query
  has no parameter \<^verbatim>\<open>ref\<close>, or the first value of \<^verbatim>\<open>ref\<close> is the empty string. When the
  lookup then returns a tag, the new query holds \<^verbatim>\<open>ref=\<close> and the escaped tag, and so does
  the locator; the tag \<^verbatim>\<open>v1.2.3\<close> is escaped as itself.
\<close>

theorem Run_ref_lookup:
  "(Values_Get (URL_Query u) ''ref'' \<noteq> []
      \<longrightarrow> Run_ref w u = (Inr (URL_String u), []))
   \<and> (Values_Get (URL_Query u) ''ref'' = [] \<and> SplitSourceUrl w u = Inr root
       \<and> getLatestReleaseTag w root = (Inr tag, calls)
      \<longrightarrow> Run_ref w u =
            (Inr (URL_String
                    (u\<lparr>RawQuery := Values_Encode (Values_Add (URL_Query u) ''ref'' tag)\<rparr>)),
             calls)
        \<and> sublist (''ref='' @ QueryEscape tag)
             (Values_Encode (Values_Add (URL_Query u) ''ref'' tag))
        \<and> sublist (''?'' @ Values_Encode (Values_Add (URL_Query u) ''ref'' tag))
             (URL_String
                (u\<lparr>RawQuery := Values_Encode (Values_Add (URL_Query u) ''ref'' tag)\<rparr>)))
   \<and> QueryEscape ''v1.2.3'' = ''v1.2.3''
   \<and> length (snd (Run_ref w u)) \<le> 1
   \<and> (snd (Run_ref w u) \<noteq> [] \<longrightarrow> Values_Get (URL_Query u) ''ref'' = [])
   \<and> (map_of (URL_Query u) ''ref'' = None \<longrightarrow> Values_Get (URL_Query u) ''ref'' = [])
   \<and> (Values_Get (URL_Query u) ''ref'' = []
      \<longrightarrow> map_of (URL_Query u) ''ref'' = None \<or> map_of (URL_Query u) ''ref'' = Some []
        \<or> (\<exists>more. map_of (URL_Query u) ''ref'' = Some ([] # more)))"
proof -
  let ?q = "Values_Encode (Values_Add (URL_Query u) ''ref'' tag)"
  have present: "Run_ref w u = (Inr (URL_String u), [])"
    if "Values_Get (URL_Query u) ''ref'' \<noteq> []"
    using that by (simp add: Run_ref_def Let_def)
  have absent: "Run_ref w u = (Inr (URL_String (u\<lparr>RawQuery := ?q\<rparr>)), calls)"
    if "Values_Get (URL_Query u) ''ref'' = []" "SplitSourceUrl w u = Inr root"
      "getLatestReleaseTag w root = (Inr tag, calls)"
    using that by (simp add: Run_ref_def Let_def)
  have esc: "QueryEscape ''ref'' = ''ref''"
    by (simp add: QueryEscape_def QueryEscape_byte_def)
  have "sublist (QueryEscape ''ref'' @ ''='' @ QueryEscape tag) ?q"
    by (rule Values_Encode_Add_contains)
  then have query: "sublist (''ref='' @ QueryEscape tag) ?q"
    by (simp add: esc)
  then have nonempty: "?q \<noteq> []" by auto
  have "URL_String (u\<lparr>RawQuery := ?q\<rparr>) = beforeQuery u @ (''?'' @ ?q) @ afterQuery u"
    using nonempty by (simp add: URL_String_def)
  then have whole: "sublist (''?'' @ ?q) (URL_String (u\<lparr>RawQuery := ?q\<rparr>))"
    unfolding sublist_def by blast
  have tag: "QueryEscape ''v1.2.3'' = ''v1.2.3''"
    by (simp add: QueryEscape_def QueryEscape_byte_def)
  have once: "length (snd (Run_ref w u)) \<le> 1"
  proof (cases "Values_Get (URL_Query u) ''ref'' = []")
    case False
    then show ?thesis by (simp add: present)
  next
    case True
    show ?thesis
    proof (cases "SplitSourceUrl w u")
      case (Inl err)
      with True show ?thesis by (simp add: Run_ref_def Let_def)
    next
      case (Inr r)
      obtain res cs where g: "getLatestReleaseTag w r = (res, cs)"
        by (cases "getLatestReleaseTag w r")
      with getLatestReleaseTag_calls [of w r] have "length cs \<le> 1" by simp
      with True Inr g show ?thesis
        by (simp add: Run_ref_def Let_def split: sum.splits failure.splits)
    qed
  qed
  have only: "Values_Get (URL_Query u) ''ref'' = []" if "snd (Run_ref w u) \<noteq> []"
    using that present by fastforce
  have none: "Values_Get (URL_Query u) ''ref'' = []" if "map_of (URL_Query u) ''ref'' = None"
    using that by (simp add: Values_Get_def)
  have empty: "map_of (URL_Query u) ''ref'' = None \<or> map_of (URL_Query u) ''ref'' = Some []
      \<or> (\<exists>more. map_of (URL_Query u) ''ref'' = Some ([] # more))"
    if "Values_Get (URL_Query u) ''ref'' = []"
    using that by (auto simp: Values_Get_def split: option.splits list.splits)
  from present absent query whole tag once only none empty show ?thesis by blast
qed
theorem Run_ref_lookup_witness:
  "Values_Get (URL_Query (example_url ''/org/repo//modules/x'' ''ref=v0.9'')) ''ref'' = ''v0.9''
   \<and> Run_ref example_world (example_url ''/org/repo//modules/x'' ''ref=v0.9'')
       = (Inr ''git::https://github.com/org/repo//modules/x?ref=v0.9'', [])
   \<and> map_of (URL_Query (example_url ''/org/repo//modules/x'' ''depth=1'')) ''ref'' = None
   \<and> Run_ref example_world (example_url ''/org/repo//modules/x'' ''depth=1'')
       = (Inr ''git::https://github.com/org/repo//modules/x?depth=1&ref=v1.2.3'',
          [(''org'', ''repo'')])
   \<and> sublist ''ref=v1.2.3'' ''depth=1&ref=v1.2.3''
   \<and> length (snd (Run_ref example_world (example_url ''/org/repo//modules/x'' ''depth=1''))) \<le> 1"
proof -
  let ?pinned = "example_url ''/org/repo//modules/x'' ''ref=v0.9''"
  let ?open = "example_url ''/org/repo//modules/x'' ''depth=1''"
  let ?root = "\<lparr>beforeQuery = ''git::https://github.com/org/repo//modules/x'',
                Path = ''/org/repo'', ForceQuery = False, RawQuery = [], afterQuery = []\<rparr>"
  let ?tag = "''v1.2.3''"
  let ?calls = "[(''org'', ''repo'')]"
  have p1: "Values_Get (URL_Query ?pinned) ''ref'' = ''v0.9''"
    by code_simp
  have p2: "URL_String ?pinned = ''git::https://github.com/org/repo//modules/x?ref=v0.9''"
    by code_simp
  have o1: "map_of (URL_Query ?open) ''ref'' = None"
    by code_simp
  have o2: "SplitSourceUrl example_world ?open = Inr ?root"
    by code_simp
  have o3: "getLatestReleaseTag example_world ?root = (Inr ?tag, ?calls)"
    by code_simp
  have o4: "Values_Encode (Values_Add (URL_Query ?open) ''ref'' ?tag) = ''depth=1&ref=v1.2.3''"
    by code_simp
  have o5: "URL_String (?open\<lparr>RawQuery := ''depth=1&ref=v1.2.3''\<rparr>)
      = ''git::https://github.com/org/repo//modules/x?depth=1&ref=v1.2.3''"
    by code_simp
  note pinned = Run_ref_lookup [where u = ?pinned and w = example_world]
  note opened = Run_ref_lookup [where u = ?open and w = example_world and root = ?root
      and tag = ?tag and calls = ?calls]
  from pinned p1 have a: "Run_ref example_world ?pinned = (Inr (URL_String ?pinned), [])"
    by simp
  from opened o1 have o0: "Values_Get (URL_Query ?open) ''ref'' = []"
    by blast
  from opened o0 o2 o3
  have b: "Run_ref example_world ?open
      = (Inr (URL_String (?open\<lparr>RawQuery :=
            Values_Encode (Values_Add (URL_Query ?open) ''ref'' ?tag)\<rparr>)), ?calls)"
    and c: "sublist (''ref='' @ QueryEscape ?tag)
        (Values_Encode (Values_Add (URL_Query ?open) ''ref'' ?tag))"
    and e: "QueryEscape ?tag = ?tag"
    and d: "length (snd (Run_ref example_world ?open)) \<le> 1"
    by blast+
  from c have c': "sublist ''ref=v1.2.3'' ''depth=1&ref=v1.2.3''"
    unfolding o4 e by simp
  from a b c' d p1 o1 show ?thesis
    unfolding o4 o5 p2 by blast
qed

end
